theory Spec2Isabelle
  imports Main "HOL-Library.Multiset"
begin

section \<open>Platform data model (internal/platform/platform.go)\<close>

text \<open>
  Go errors are values carrying a message; \<open>fmt.Errorf\<close> builds one and
  \<open>err.Error()\<close> reads the message back.
\<close>

datatype error = Errorf string

fun Error :: "error \<Rightarrow> string" where
  "Error (Errorf m) = m"

text \<open>
  \<open>Deployment\<close> and \<open>DeployEvent\<close> of platform.go. Times are integers:
  \<open>CreatedAt\<close> in milliseconds since the epoch, \<open>Duration\<close> in nanoseconds.
  A nil pointer is \<open>None\<close>.
\<close>

record Deployment =
  dep_ID :: string
  dep_Status :: string
  dep_Commit :: string
  dep_Message :: string
  dep_CreatedAt :: int
  dep_Duration :: int
  dep_URL :: string

record DeployEvent =
  ev_Phase :: string
  ev_Message :: string
  ev_Deploy :: "Deployment option"
  ev_Error :: "error option"
  ev_Logs :: "string list"

definition isInProgress :: "string \<Rightarrow> bool" where
  "isInProgress status =
     (if status = ''building'' \<or> status = ''deploying'' \<or> status = ''pending''
      then True else False)"

section \<open>Vendor status mappings (vercel.go, koyeb.go)\<close>

definition mapVercelState :: "string \<Rightarrow> string" where
  "mapVercelState state =
     (if state = ''READY'' then ''healthy''
      else if state = ''BUILDING'' then ''building''
      else if state = ''DEPLOYING'' \<or> state = ''INITIALIZING'' \<or> state = ''QUEUED''
        then ''deploying''
      else if state = ''ERROR'' \<or> state = ''CANCELED'' then ''failed''
      else state)"

definition mapVercelToWatchPhase :: "string \<Rightarrow> string" where
  "mapVercelToWatchPhase status =
     (if status = ''building'' then ''building''
      else if status = ''deploying'' then ''deploying''
      else if status = ''healthy'' then ''done''
      else if status = ''failed'' then ''failed''
      else ''building'')"


definition mapKoyebDeployStatus :: "string \<Rightarrow> string" where
  "mapKoyebDeployStatus status =
     (if status = ''PENDING'' \<or> status = ''QUEUED'' then ''pending''
      else if status = ''PROVISIONING'' \<or> status = ''SCHEDULED'' then ''building''
      else if status = ''DEPLOYING'' \<or> status = ''STARTING'' then ''deploying''
      else if status = ''HEALTHY'' then ''healthy''
      else if status = ''DEGRADED'' then ''degraded''
      else if status = ''UNHEALTHY'' \<or> status = ''ERROR'' \<or> status = ''ERRORING''
        then ''failed''
      else if status = ''STOPPED'' \<or> status = ''SLEEPING'' then ''sleeping''
      else status)"

definition mapKoyebToWatchPhase :: "string \<Rightarrow> string" where
  "mapKoyebToWatchPhase status =
     (if status = ''pending'' then ''building''
      else if status = ''building'' then ''building''
      else if status = ''deploying'' then ''deploying''
      else if status = ''healthy'' then ''done''
      else if status = ''degraded'' then ''done''
      else if status = ''failed'' then ''failed''
      else if status = ''sleeping'' then ''done''
      else ''building'')"




section \<open>Watch results and the exit code (cmd/watch.go)\<close>

definition exitSuccess :: int where "exitSuccess = 0"
definition exitFailed :: int where "exitFailed = 1"
definition exitNoDeployment :: int where "exitNoDeployment = 2"
definition exitTimeout :: int where "exitTimeout = 3"


record watchResult =
  res_ServiceName :: string
  res_Platform :: string
  res_ExitCode :: int
  res_DeployID :: string
  res_Commit :: string
  res_Message :: string
  res_Duration :: int
  res_Status :: string
  res_Phase :: string
  res_URL :: string
  res_Error :: string
  res_Logs :: "string list"
  res_WaitedSec :: int

text \<open>
  The two loops at the end of \<open>runWatch\<close>: the first keeps the highest exit code
  seen, starting from \<open>exitSuccess\<close>; the second overrides it with \<open>exitFailed\<close>
  at the first failed result.
\<close>

fun worstLoop :: "int \<Rightarrow> watchResult list \<Rightarrow> int" where
  "worstLoop worstCode [] = worstCode"
| "worstLoop worstCode (r # rs) =
     worstLoop (if res_ExitCode r > worstCode then res_ExitCode r else worstCode) rs"

fun failedLoop :: "int \<Rightarrow> watchResult list \<Rightarrow> int" where
  "failedLoop worstCode [] = worstCode"
| "failedLoop worstCode (r # rs) =
     (if res_ExitCode r = exitFailed then exitFailed else failedLoop worstCode rs)"

definition worstCode :: "watchResult list \<Rightarrow> int" where
  "worstCode results = failedLoop (worstLoop exitSuccess results) results"

text \<open>
  \<open>ExitCodeError\<close> of cmd/root.go; \<open>runWatch\<close> returns nil for
  \<open>exitSuccess\<close> and an \<open>ExitCodeError\<close> otherwise, and \<open>Execute\<close>
  turns the returned error into the process exit code.
\<close>

record ExitCodeError =
  Code :: int
  Msg :: string

definition runWatchMulti :: "watchResult list \<Rightarrow> ExitCodeError option" where
  "runWatchMulti results =
     (let w = worstCode results in
      if w = exitSuccess then None else Some \<lparr>Code = w, Msg = ''''\<rparr>)"

definition Execute :: "ExitCodeError option \<Rightarrow> int" where
  "Execute err = (case err of None \<Rightarrow> 0 | Some exitErr \<Rightarrow> Code exitErr)"

definition processExitCode :: "watchResult list \<Rightarrow> int" where
  "processExitCode results = Execute (runWatchMulti results)"

text \<open>A result that only carries an exit code, for examples.\<close>

definition outcome :: "int \<Rightarrow> watchResult" where
  "outcome c =
     \<lparr>res_ServiceName = '''', res_Platform = '''', res_ExitCode = c, res_DeployID = '''',
      res_Commit = '''', res_Message = '''', res_Duration = 0, res_Status = '''',
      res_Phase = '''', res_URL = '''', res_Error = '''', res_Logs = [],
      res_WaitedSec = 0\<rparr>"

section \<open>Formatting helpers\<close>

text \<open>
  \<open>%d\<close> of \<open>fmt.Sprintf\<close>: the decimal digits of an integer, with a minus
  sign when it is negative.
\<close>

fun natDigits :: "nat \<Rightarrow> string" where
  "natDigits n =
     (if n < 10 then [char_of (48 + n)]
      else natDigits (n div 10) @ [char_of (48 + n mod 10)])"

declare natDigits.simps [simp del]

definition itoa :: "int \<Rightarrow> string" where
  "itoa i = (if i < 0 then CHR ''-'' # natDigits (nat (- i)) else natDigits (nat i))"

text \<open>
  \<open>int(d.Seconds())\<close> for a \<open>time.Duration\<close> of \<open>d\<close> nanoseconds:
  the whole seconds, truncated toward zero. (Go computes the quotient in float64; the
  two agree for every duration below 2^53 nanoseconds, about 104 days.)
\<close>

definition wholeSeconds :: "int \<Rightarrow> int" where
  "wholeSeconds d =
     (if d \<ge> 0 then d div 1000000000 else - ((- d) div 1000000000))"

section \<open>Vendor API replies\<close>

text \<open>
  An HTTP exchange of the Vercel adapter: the transport error of \<open>doRequest\<close>, or a
  response with its status code and the outcome of decoding its JSON body.
\<close>

record 'a httpResponse =
  StatusCode :: int
  Body :: "error + 'a"

type_synonym 'a httpResult = "error + 'a httpResponse"

record vercelDeployment =
  vd_UID :: string
  vd_State :: string
  vd_ReadyState :: string
  vd_Created :: int
  vd_URL :: string
  vd_GitCommitSha :: string
  vd_GitCommitMessage :: string

record vercelEvent =
  ve_Type :: string
  ve_Text :: string

text \<open>
  A deployment as the Koyeb SDK returns it; \<open>Execute()\<close> yields the reply or an
  error.
\<close>

record koyebDeployment =
  kd_Id :: string
  kd_Status :: string
  kd_CreatedAt :: int
  kd_HasGit :: bool
  kd_GitSha :: string
  kd_GitRepository :: string

record koyebLogItem =
  kl_Msg :: string
  kl_Stream :: string

section \<open>The Vercel adapter (internal/platform/vercel.go)\<close>

definition vercel_ListDeployments ::
  "vercelDeployment list httpResult \<Rightarrow> error + Deployment list" where
  "vercel_ListDeployments reply =
     (case reply of
        Inl err \<Rightarrow> Inl (Errorf (''list deployments: '' @ Error err))
      | Inr resp \<Rightarrow>
          if StatusCode resp \<noteq> 200
          then Inl (Errorf (''vercel API returned status '' @ itoa (StatusCode resp)))
          else (case Body resp of
                  Inl err \<Rightarrow> Inl (Errorf (''decode response: '' @ Error err))
                | Inr ds \<Rightarrow>
                    Inr (map (\<lambda>d.
                      \<lparr>dep_ID = vd_UID d, dep_Status = mapVercelState (vd_State d),
                       dep_Commit = vd_GitCommitSha d, dep_Message = vd_GitCommitMessage d,
                       dep_CreatedAt = vd_Created d, dep_Duration = 0,
                       dep_URL = ''https://'' @ vd_URL d\<rparr>) ds)))"

definition vercel_GetDeployment ::
  "string \<Rightarrow> vercelDeployment httpResult \<Rightarrow> error + Deployment" where
  "vercel_GetDeployment deployID reply =
     (case reply of
        Inl err \<Rightarrow> Inl (Errorf (''get deployment: '' @ Error err))
      | Inr resp \<Rightarrow>
          if StatusCode resp = 404
          then Inl (Errorf (''deployment not found: '' @ deployID))
          else if StatusCode resp \<noteq> 200
          then Inl (Errorf (''vercel API returned status '' @ itoa (StatusCode resp)))
          else (case Body resp of
                  Inl err \<Rightarrow> Inl (Errorf (''decode response: '' @ Error err))
                | Inr d \<Rightarrow>
                    (let state = (if vd_State d = '''' then vd_ReadyState d else vd_State d)
                     in Inr
                      \<lparr>dep_ID = vd_UID d, dep_Status = mapVercelState state,
                       dep_Commit = vd_GitCommitSha d, dep_Message = vd_GitCommitMessage d,
                       dep_CreatedAt = vd_Created d, dep_Duration = 0,
                       dep_URL = (if vd_URL d \<noteq> '''' then ''https://'' @ vd_URL d
                                  else '''')\<rparr>)))"

definition vercel_getDeploymentErrors ::
  "vercelEvent list httpResult \<Rightarrow> error + string list" where
  "vercel_getDeploymentErrors reply =
     (case reply of
        Inl err \<Rightarrow> Inl err
      | Inr resp \<Rightarrow>
          if StatusCode resp \<noteq> 200
          then Inl (Errorf (''status '' @ itoa (StatusCode resp)))
          else (case Body resp of
                  Inl err \<Rightarrow> Inl err
                | Inr events \<Rightarrow>
                    Inr (map ve_Text
                      (filter (\<lambda>e. (ve_Type e = ''stderr'' \<or> ve_Type e = ''error'') \<and>
                                     ve_Text e \<noteq> '''') events))))"

text \<open>
  The polling goroutine writes to an unbuffered channel and closes it when it returns.
  Its model is the list of events it sends, in order, while it consumes a finite script
  of API replies, together with a flag: \<open>True\<close> when the goroutine has returned (the
  channel is closed), \<open>False\<close> when the script ended while the loop was still
  polling. The sleeps between polls do not change what is sent.
\<close>

type_synonym chan = "DeployEvent list \<times> bool"

definition send :: "DeployEvent \<Rightarrow> chan \<Rightarrow> chan" where
  "send e ch = (e # fst ch, snd ch)"

definition failedEvent :: "error \<Rightarrow> DeployEvent" where
  "failedEvent err =
     \<lparr>ev_Phase = ''failed'', ev_Message = '''', ev_Deploy = None, ev_Error = Some err,
      ev_Logs = []\<rparr>"

definition waitingEvent :: DeployEvent where
  "waitingEvent =
     \<lparr>ev_Phase = ''waiting'', ev_Message = ''Waiting for new deployment...'',
      ev_Deploy = None, ev_Error = None, ev_Logs = []\<rparr>"

fun vercel_trackDeployment ::
  "string \<Rightarrow> string \<Rightarrow> vercelDeployment httpResult list \<Rightarrow>
   vercelEvent list httpResult \<Rightarrow> chan" where
  "vercel_trackDeployment deployID lastPhase [] logsReply = ([], False)"
| "vercel_trackDeployment deployID lastPhase (g # gs) logsReply =
     (case vercel_GetDeployment deployID g of
        Inl err \<Rightarrow>
          ([failedEvent (Errorf (''get deployment: '' @ Error err))], True)
      | Inr deploy \<Rightarrow>
          (let phase = mapVercelToWatchPhase (dep_Status deploy) in
           if phase \<noteq> lastPhase then
             (let event = \<lparr>ev_Phase = phase, ev_Message = '''', ev_Deploy = Some deploy,
                           ev_Error = None, ev_Logs = []\<rparr> in
              if phase = ''building'' then
                send (event\<lparr>ev_Message := ''Building...''\<rparr>)
                  (vercel_trackDeployment deployID phase gs logsReply)
              else if phase = ''deploying'' then
                send (event\<lparr>ev_Message := ''Deploying...''\<rparr>)
                  (vercel_trackDeployment deployID phase gs logsReply)
              else if phase = ''healthcheck'' then
                send (event\<lparr>ev_Message := ''Health check...''\<rparr>)
                  (vercel_trackDeployment deployID phase gs logsReply)
              else if phase = ''done'' then
                ([event\<lparr>ev_Message := ''Deploy successful!''\<rparr>], True)
              else if phase = ''failed'' then
                ([event\<lparr>ev_Message := ''Deployment failed!'',
                        ev_Error := Some (Errorf (''deployment '' @ deployID @ '' failed'')),
                        ev_Logs := (case vercel_getDeploymentErrors logsReply of
                                      Inr logs \<Rightarrow> logs | Inl err \<Rightarrow> [])\<rparr>], True)
              else
                send event (vercel_trackDeployment deployID phase gs logsReply))
           else vercel_trackDeployment deployID lastPhase gs logsReply))"

text \<open>
  The first loop of \<open>WatchDeployment\<close> ("Phase 1"): poll until the most recent
  deployment's id differs from \<open>currentDeployID\<close>.
\<close>

fun vercel_detectLoop ::
  "string \<Rightarrow> vercelDeployment list httpResult list \<Rightarrow>
   vercelDeployment httpResult list \<Rightarrow> vercelEvent list httpResult \<Rightarrow> chan" where
  "vercel_detectLoop currentDeployID [] getReplies logsReply = ([], False)"
| "vercel_detectLoop currentDeployID (l # ls) getReplies logsReply =
     (case vercel_ListDeployments l of
        Inl err \<Rightarrow> ([failedEvent (Errorf (''poll deployments: '' @ Error err))], True)
      | Inr deploys \<Rightarrow>
          (case deploys of
             d # rest \<Rightarrow>
               if dep_ID d \<noteq> currentDeployID then
                 send \<lparr>ev_Phase = ''detected'',
                       ev_Message = ''New deployment detected! ('' @ dep_ID d @ '')'',
                       ev_Deploy = Some d, ev_Error = None, ev_Logs = []\<rparr>
                   (vercel_trackDeployment (dep_ID d) '''' getReplies logsReply)
               else send waitingEvent (vercel_detectLoop currentDeployID ls getReplies logsReply)
           | [] \<Rightarrow> send waitingEvent (vercel_detectLoop currentDeployID ls getReplies logsReply)))"

text \<open>
  The goroutine of \<open>WatchDeployment\<close>: one poll that looks for a deployment already
  in progress, then the detection loop. \<open>listReplies\<close> are the replies to the successive
  list requests, \<open>getReplies\<close> the replies to the successive requests for the tracked
  deployment, \<open>logsReply\<close> the reply to the request for its error log.
\<close>

definition vercel_goroutine ::
  "string \<Rightarrow> vercelDeployment list httpResult list \<Rightarrow>
   vercelDeployment httpResult list \<Rightarrow> vercelEvent list httpResult \<Rightarrow> chan" where
  "vercel_goroutine currentDeployID listReplies getReplies logsReply =
     (case listReplies of
        [] \<Rightarrow> ([], False)
      | l # ls \<Rightarrow>
          (case vercel_ListDeployments l of
             Inl err \<Rightarrow> ([failedEvent (Errorf (''poll deployments: '' @ Error err))], True)
           | Inr deploys \<Rightarrow>
               (case deploys of
                  d # rest \<Rightarrow>
                    if isInProgress (dep_Status d) then
                      send \<lparr>ev_Phase = ''detected'',
                            ev_Message = ''In-progress deployment found ('' @ dep_ID d @ '')'',
                            ev_Deploy = Some d, ev_Error = None, ev_Logs = []\<rparr>
                        (vercel_trackDeployment (dep_ID d) '''' getReplies logsReply)
                    else vercel_detectLoop currentDeployID ls getReplies logsReply
                | [] \<Rightarrow> vercel_detectLoop currentDeployID ls getReplies logsReply)))"


section \<open>The Koyeb adapter (internal/platform/koyeb.go)\<close>

definition koyeb_ListDeployments ::
  "error + koyebDeployment list \<Rightarrow> error + Deployment list" where
  "koyeb_ListDeployments reply =
     (case reply of
        Inl err \<Rightarrow> Inl (Errorf (''list deployments: '' @ Error err))
      | Inr ds \<Rightarrow>
          Inr (map (\<lambda>d.
            \<lparr>dep_ID = kd_Id d, dep_Status = mapKoyebDeployStatus (kd_Status d),
             dep_Commit = (if kd_HasGit d then kd_GitSha d else ''''),
             dep_Message = (if kd_HasGit d then kd_GitRepository d else ''''),
             dep_CreatedAt = kd_CreatedAt d, dep_Duration = 0, dep_URL = ''''\<rparr>) ds))"

definition koyeb_GetDeployment ::
  "error + koyebDeployment \<Rightarrow> error + Deployment" where
  "koyeb_GetDeployment reply =
     (case reply of
        Inl err \<Rightarrow> Inl (Errorf (''get deployment: '' @ Error err))
      | Inr d \<Rightarrow>
          Inr \<lparr>dep_ID = kd_Id d, dep_Status = mapKoyebDeployStatus (kd_Status d),
               dep_Commit = '''', dep_Message = '''', dep_CreatedAt = kd_CreatedAt d,
               dep_Duration = 0, dep_URL = ''''\<rparr>)"

definition koyeb_getDeploymentErrors ::
  "koyebLogItem list httpResult \<Rightarrow> error + string list" where
  "koyeb_getDeploymentErrors reply =
     (case reply of
        Inl err \<Rightarrow> Inl err
      | Inr resp \<Rightarrow>
          if StatusCode resp \<noteq> 200
          then Inl (Errorf (''status '' @ itoa (StatusCode resp)))
          else (case Body resp of
                  Inl err \<Rightarrow> Inl err
                | Inr items \<Rightarrow>
                    Inr (map kl_Msg
                      (filter (\<lambda>i. kl_Stream i = ''stderr'' \<and> kl_Msg i \<noteq> '''') items))))"

fun koyeb_trackDeployment ::
  "string \<Rightarrow> string \<Rightarrow> (error + koyebDeployment) list \<Rightarrow>
   koyebLogItem list httpResult \<Rightarrow> chan" where
  "koyeb_trackDeployment deployID lastPhase [] logsReply = ([], False)"
| "koyeb_trackDeployment deployID lastPhase (g # gs) logsReply =
     (case koyeb_GetDeployment g of
        Inl err \<Rightarrow>
          ([failedEvent (Errorf (''get deployment: '' @ Error err))], True)
      | Inr deploy \<Rightarrow>
          (let phase = mapKoyebToWatchPhase (dep_Status deploy) in
           if phase \<noteq> lastPhase then
             (let event = \<lparr>ev_Phase = phase, ev_Message = '''', ev_Deploy = Some deploy,
                           ev_Error = None, ev_Logs = []\<rparr> in
              if phase = ''building'' then
                send (event\<lparr>ev_Message := ''Building...''\<rparr>)
                  (koyeb_trackDeployment deployID phase gs logsReply)
              else if phase = ''deploying'' then
                send (event\<lparr>ev_Message := ''Deploying...''\<rparr>)
                  (koyeb_trackDeployment deployID phase gs logsReply)
              else if phase = ''healthcheck'' then
                send (event\<lparr>ev_Message := ''Health check...''\<rparr>)
                  (koyeb_trackDeployment deployID phase gs logsReply)
              else if phase = ''done'' then
                ([event\<lparr>ev_Message := ''Deploy successful!''\<rparr>], True)
              else if phase = ''failed'' then
                ([event\<lparr>ev_Message := ''Deployment failed!'',
                        ev_Error := Some (Errorf (''deployment '' @ deployID @ '' failed'')),
                        ev_Logs := (case koyeb_getDeploymentErrors logsReply of
                                      Inr logs \<Rightarrow> logs | Inl err \<Rightarrow> [])\<rparr>], True)
              else
                send event (koyeb_trackDeployment deployID phase gs logsReply))
           else koyeb_trackDeployment deployID lastPhase gs logsReply))"

text \<open>
  The goroutine of Koyeb's \<open>WatchDeployment\<close> is the detection loop alone: every
  poll compares the most recent deployment's id with \<open>currentDeployID\<close>.
\<close>

fun koyeb_goroutine ::
  "string \<Rightarrow> (error + koyebDeployment list) list \<Rightarrow>
   (error + koyebDeployment) list \<Rightarrow> koyebLogItem list httpResult \<Rightarrow> chan" where
  "koyeb_goroutine currentDeployID [] getReplies logsReply = ([], False)"
| "koyeb_goroutine currentDeployID (l # ls) getReplies logsReply =
     (case koyeb_ListDeployments l of
        Inl err \<Rightarrow> ([failedEvent (Errorf (''poll deployments: '' @ Error err))], True)
      | Inr deploys \<Rightarrow>
          (case deploys of
             d # rest \<Rightarrow>
               if dep_ID d \<noteq> currentDeployID then
                 send \<lparr>ev_Phase = ''detected'',
                       ev_Message = ''New deployment detected! ('' @ dep_ID d @ '')'',
                       ev_Deploy = Some d, ev_Error = None, ev_Logs = []\<rparr>
                   (koyeb_trackDeployment (dep_ID d) '''' getReplies logsReply)
               else send waitingEvent (koyeb_goroutine currentDeployID ls getReplies logsReply)
           | [] \<Rightarrow> send waitingEvent (koyeb_goroutine currentDeployID ls getReplies logsReply)))"

definition koyeb_WatchDeployment ::
  "string \<Rightarrow> string \<Rightarrow> (error + koyebDeployment list) list \<Rightarrow>
   (error + koyebDeployment) list \<Rightarrow> koyebLogItem list httpResult \<Rightarrow> error + chan" where
  "koyeb_WatchDeployment serviceID currentDeployID listReplies getReplies logsReply =
     Inr (koyeb_goroutine currentDeployID listReplies getReplies logsReply)"

section \<open>The Supabase adapter (internal/platform/supabase.go)\<close>



section \<open>The watch session (cmd/watch.go)\<close>

text \<open>\<open>ServiceEntry\<close> of internal/config/config.go.\<close>

record ServiceEntry =
  Name :: string
  Platform :: string
  ID :: string

text \<open>
  One iteration of the \<open>select\<close> loop handles one of: the detect-deadline timer,
  the overall-deadline timer, an event received from the channel, or the channel found
  closed. A run of the loop is driven by the list of these occurrences in the order the
  runtime delivers them, each with the reading of \<open>time.Since(startTime)\<close> (in
  nanoseconds) taken while it is handled. Output written to the terminal is not
  modelled; the \<open>isJSON\<close> flag only controls that output.
\<close>

datatype selectCase = DetectDeadline | OverallDeadline | Recv DeployEvent | ChanClosed

type_synonym tick = "int \<times> selectCase"

definition onDetected :: "DeployEvent \<Rightarrow> watchResult \<Rightarrow> watchResult" where
  "onDetected event result =
     (case ev_Deploy event of
        None \<Rightarrow> result
      | Some d \<Rightarrow> result\<lparr>res_DeployID := dep_ID d, res_Commit := dep_Commit d,
                          res_Message := dep_Message d\<rparr>)"

text \<open>The loop of \<open>watchSingleService\<close>; \<open>None\<close> while it has not returned.\<close>

fun watchLoop :: "string \<Rightarrow> bool \<Rightarrow> watchResult \<Rightarrow> tick list \<Rightarrow> watchResult option" where
  "watchLoop currentDeployID detected result [] = None"
| "watchLoop currentDeployID detected result ((t, DetectDeadline) # ticks) =
     (if \<not> detected then
        Some (let elapsed = wholeSeconds t;
                  result = result\<lparr>res_ExitCode := exitNoDeployment, res_WaitedSec := elapsed,
                                  res_Error := ''No new deployment detected''\<rparr>
              in if currentDeployID \<noteq> '''' then result\<lparr>res_DeployID := currentDeployID\<rparr>
                 else result)
      else watchLoop currentDeployID detected result ticks)"
| "watchLoop currentDeployID detected result ((t, OverallDeadline) # ticks) =
     (let elapsed = wholeSeconds t in
      if \<not> detected then
        Some (result\<lparr>res_ExitCode := exitNoDeployment, res_WaitedSec := elapsed,
                     res_Error := ''No new deployment detected''\<rparr>)
      else
        Some (result\<lparr>res_ExitCode := exitTimeout,
                     res_Error := ''Deploy still in progress after '' @ itoa elapsed @ ''s''\<rparr>))"
| "watchLoop currentDeployID detected result ((t, ChanClosed) # ticks) =
     (if res_ExitCode result = 0 \<and> \<not> detected then
        Some (result\<lparr>res_ExitCode := exitNoDeployment,
                     res_Error := ''Watch ended unexpectedly''\<rparr>)
      else Some result)"
| "watchLoop currentDeployID detected result ((t, Recv event) # ticks) =
     (if ev_Phase event = ''waiting'' then
        watchLoop currentDeployID detected result ticks
      else if ev_Phase event = ''detected'' then
        watchLoop currentDeployID True (onDetected event result) ticks
      else if ev_Phase event = ''building'' then
        watchLoop currentDeployID detected (result\<lparr>res_Phase := ''building''\<rparr>) ticks
      else if ev_Phase event = ''deploying'' then
        watchLoop currentDeployID detected (result\<lparr>res_Phase := ''deploying''\<rparr>) ticks
      else if ev_Phase event = ''healthcheck'' then
        watchLoop currentDeployID detected (result\<lparr>res_Phase := ''healthcheck''\<rparr>) ticks
      else if ev_Phase event = ''done'' then
        Some (let result = result\<lparr>res_ExitCode := exitSuccess, res_Phase := ''done'',
                                  res_Duration := t\<rparr>
              in case ev_Deploy event of
                   None \<Rightarrow> result
                 | Some d \<Rightarrow>
                     (let result = result\<lparr>res_Status := dep_Status d, res_URL := dep_URL d\<rparr>
                      in if res_DeployID result = '''' then result\<lparr>res_DeployID := dep_ID d\<rparr>
                         else result))
      else if ev_Phase event = ''failed'' then
        Some (let result = result\<lparr>res_ExitCode := exitFailed, res_Phase := ev_Phase event,
                                  res_Duration := t\<rparr>;
                  result = (case ev_Error event of
                              None \<Rightarrow> result
                            | Some err \<Rightarrow> result\<lparr>res_Error := Error err\<rparr>);
                  result = result\<lparr>res_Logs := ev_Logs event\<rparr>
              in case ev_Deploy event of
                   None \<Rightarrow> result
                 | Some d \<Rightarrow>
                     (let result = result\<lparr>res_Status := dep_Status d\<rparr>
                      in if res_DeployID result = '''' then result\<lparr>res_DeployID := dep_ID d\<rparr>
                         else result))
      else watchLoop currentDeployID detected result ticks)"

text \<open>The loop of \<open>watchSingleServiceQuiet\<close>.\<close>

fun watchLoopQuiet :: "bool \<Rightarrow> watchResult \<Rightarrow> tick list \<Rightarrow> watchResult option" where
  "watchLoopQuiet detected result [] = None"
| "watchLoopQuiet detected result ((t, DetectDeadline) # ticks) =
     (if \<not> detected then
        Some (result\<lparr>res_ExitCode := exitNoDeployment, res_WaitedSec := wholeSeconds t,
                     res_Error := ''No new deployment detected''\<rparr>)
      else watchLoopQuiet detected result ticks)"
| "watchLoopQuiet detected result ((t, OverallDeadline) # ticks) =
     (let elapsed = wholeSeconds t in
      if \<not> detected then
        Some (result\<lparr>res_ExitCode := exitNoDeployment, res_WaitedSec := elapsed,
                     res_Error := ''No new deployment detected''\<rparr>)
      else
        Some (result\<lparr>res_ExitCode := exitTimeout,
                     res_Error := ''Deploy still in progress after '' @ itoa elapsed @ ''s''\<rparr>))"
| "watchLoopQuiet detected result ((t, ChanClosed) # ticks) =
     (if res_ExitCode result = 0 \<and> \<not> detected then
        Some (result\<lparr>res_ExitCode := exitNoDeployment,
                     res_Error := ''Watch ended unexpectedly''\<rparr>)
      else Some result)"
| "watchLoopQuiet detected result ((t, Recv event) # ticks) =
     (if ev_Phase event = ''detected'' then
        watchLoopQuiet True (onDetected event result) ticks
      else if ev_Phase event = ''building'' then
        watchLoopQuiet detected (result\<lparr>res_Phase := ''building''\<rparr>) ticks
      else if ev_Phase event = ''deploying'' then
        watchLoopQuiet detected (result\<lparr>res_Phase := ''deploying''\<rparr>) ticks
      else if ev_Phase event = ''healthcheck'' then
        watchLoopQuiet detected (result\<lparr>res_Phase := ''healthcheck''\<rparr>) ticks
      else if ev_Phase event = ''done'' then
        Some (let result = result\<lparr>res_ExitCode := exitSuccess, res_Phase := ''done'',
                                  res_Duration := t\<rparr>
              in case ev_Deploy event of
                   None \<Rightarrow> result
                 | Some d \<Rightarrow> result\<lparr>res_Status := dep_Status d, res_URL := dep_URL d\<rparr>)
      else if ev_Phase event = ''failed'' then
        Some (let result = result\<lparr>res_ExitCode := exitFailed, res_Phase := ev_Phase event,
                                  res_Duration := t\<rparr>;
                  result = (case ev_Error event of
                              None \<Rightarrow> result
                            | Some err \<Rightarrow> result\<lparr>res_Error := Error err\<rparr>)
              in result\<lparr>res_Logs := ev_Logs event\<rparr>)
      else watchLoopQuiet detected result ticks)"

text \<open>
  The zero \<open>watchResult\<close> with the service's name and platform, as both functions
  build it first.
\<close>

definition newResult :: "ServiceEntry \<Rightarrow> watchResult" where
  "newResult entry =
     \<lparr>res_ServiceName = Name entry, res_Platform = Platform entry, res_ExitCode = 0,
      res_DeployID = '''', res_Commit = '''', res_Message = '''', res_Duration = 0,
      res_Status = '''', res_Phase = '''', res_URL = '''', res_Error = '''', res_Logs = [],
      res_WaitedSec = 0\<rparr>"

definition baselineID :: "Deployment list \<Rightarrow> string" where
  "baselineID deploys = (case deploys of [] \<Rightarrow> '''' | d # rest \<Rightarrow> dep_ID d)"

text \<open>
  \<open>listed\<close> is what the adapter's \<open>ListDeployments\<close> returned, \<open>watched\<close>
  what its \<open>WatchDeployment\<close> returned; the events of the channel reach the loop
  through the ticks.
\<close>

definition watchSingleService ::
  "ServiceEntry \<Rightarrow> error + Deployment list \<Rightarrow> error + chan \<Rightarrow> tick list \<Rightarrow>
   watchResult option" where
  "watchSingleService entry listed watched ticks =
     (let result = newResult entry in
      case listed of
        Inl err \<Rightarrow>
          Some (result\<lparr>res_ExitCode := exitFailed,
                       res_Error := ''list deployments: '' @ Error err\<rparr>)
      | Inr deploys \<Rightarrow>
          (let currentDeployID = baselineID deploys in
           case watched of
             Inl err \<Rightarrow>
               Some (result\<lparr>res_ExitCode := exitFailed,
                            res_Error := ''watch: '' @ Error err\<rparr>)
           | Inr ch \<Rightarrow> watchLoop currentDeployID False result ticks))"

definition watchSingleServiceQuiet ::
  "ServiceEntry \<Rightarrow> error + Deployment list \<Rightarrow> error + chan \<Rightarrow> tick list \<Rightarrow>
   watchResult option" where
  "watchSingleServiceQuiet entry listed watched ticks =
     (let result = newResult entry in
      case listed of
        Inl err \<Rightarrow>
          Some (result\<lparr>res_ExitCode := exitFailed,
                       res_Error := ''list deployments: '' @ Error err\<rparr>)
      | Inr deploys \<Rightarrow>
          (case watched of
             Inl err \<Rightarrow>
               Some (result\<lparr>res_ExitCode := exitFailed,
                            res_Error := ''watch: '' @ Error err\<rparr>)
           | Inr ch \<Rightarrow> watchLoopQuiet False result ticks))"

text \<open>
  The ticks in which the channel delivers the events of \<open>ch\<close> one after the other at
  the clock readings \<open>ts\<close>, and is then found closed at reading \<open>tc\<close> if the goroutine
  has returned.
\<close>

definition chanTicks :: "int list \<Rightarrow> int \<Rightarrow> chan \<Rightarrow> tick list" where
  "chanTicks ts tc ch =
     map (\<lambda>(t, e). (t, Recv e)) (zip ts (fst ch)) @
     (if snd ch \<and> length (fst ch) \<le> length ts then [(tc, ChanClosed)] else [])"

section \<open>Structured output (cmd/watch.go)\<close>

record watchJSON =
  js_Result :: string
  js_Service :: string
  js_Platform :: string
  js_DeployID :: string
  js_Commit :: string
  js_DurationSec :: int
  js_Status :: string
  js_Phase :: string
  js_URL :: string
  js_Error :: string
  js_Logs :: "string list"
  js_CurrentDeployID :: string
  js_WaitedSec :: int
  js_Reason :: string
  js_ElapsedSec :: int

definition resultToJSON :: "watchResult \<Rightarrow> watchJSON" where
  "resultToJSON r =
     (let j = \<lparr>js_Result = '''', js_Service = res_ServiceName r, js_Platform = res_Platform r,
                js_DeployID = res_DeployID r, js_Commit = res_Commit r, js_DurationSec = 0,
                js_Status = res_Status r, js_Phase = '''', js_URL = res_URL r, js_Error = '''',
                js_Logs = [], js_CurrentDeployID = '''', js_WaitedSec = 0, js_Reason = '''',
                js_ElapsedSec = 0\<rparr>
      in if res_ExitCode r = exitSuccess then
           (let j = j\<lparr>js_Result := ''success'',
                        js_DurationSec := wholeSeconds (res_Duration r)\<rparr>
            in if js_Status j = '''' then j\<lparr>js_Status := ''healthy''\<rparr> else j)
         else if res_ExitCode r = exitFailed then
           j\<lparr>js_Result := ''failed'', js_DurationSec := wholeSeconds (res_Duration r),
             js_Phase := res_Phase r, js_Error := res_Error r, js_Logs := res_Logs r\<rparr>
         else if res_ExitCode r = exitNoDeployment then
           j\<lparr>js_Result := ''no_deployment'', js_CurrentDeployID := res_DeployID r,
             js_DeployID := '''', js_WaitedSec := res_WaitedSec r,
             js_Reason := ''No new deployment detected''\<rparr>
         else if res_ExitCode r = exitTimeout then
           (let j = j\<lparr>js_Result := ''timeout'', js_Phase := res_Phase r,
                        js_ElapsedSec := wholeSeconds (res_Duration r)\<rparr>
            in if js_ElapsedSec j = 0 then j\<lparr>js_ElapsedSec := res_WaitedSec r\<rparr> else j)
         else j)"

text \<open>
  What \<open>json.MarshalIndent\<close> writes for a \<open>watchJSON\<close>: the fields in the order
  of the struct, under the names of their tags; a field tagged \<open>omitempty\<close> is left
  out when it is the empty string, zero or an empty list.
\<close>

datatype jsonValue = JString string | JNumber int | JStrings "string list"

definition omitString :: "string \<Rightarrow> string \<Rightarrow> (string \<times> jsonValue) list" where
  "omitString k v = (if v = '''' then [] else [(k, JString v)])"

definition omitInt :: "string \<Rightarrow> int \<Rightarrow> (string \<times> jsonValue) list" where
  "omitInt k v = (if v = 0 then [] else [(k, JNumber v)])"

definition omitStrings :: "string \<Rightarrow> string list \<Rightarrow> (string \<times> jsonValue) list" where
  "omitStrings k v = (if v = [] then [] else [(k, JStrings v)])"

definition marshalWatchJSON :: "watchJSON \<Rightarrow> (string \<times> jsonValue) list" where
  "marshalWatchJSON j =
     [(''result'', JString (js_Result j))] @
     omitString ''service'' (js_Service j) @
     omitString ''platform'' (js_Platform j) @
     omitString ''deploy_id'' (js_DeployID j) @
     omitString ''commit'' (js_Commit j) @
     omitInt ''duration_sec'' (js_DurationSec j) @
     omitString ''status'' (js_Status j) @
     omitString ''phase'' (js_Phase j) @
     omitString ''url'' (js_URL j) @
     omitString ''error'' (js_Error j) @
     omitStrings ''logs'' (js_Logs j) @
     omitString ''current_deploy_id'' (js_CurrentDeployID j) @
     omitInt ''waited_sec'' (js_WaitedSec j) @
     omitString ''reason'' (js_Reason j) @
     omitInt ''elapsed_sec'' (js_ElapsedSec j)"


definition printWatchMultiJSON :: "watchResult list \<Rightarrow> (string \<times> jsonValue) list list" where
  "printWatchMultiJSON results = map (\<lambda>r. marshalWatchJSON (resultToJSON r)) results"


section \<open>Token encryption (internal/config/crypto.go)\<close>

definition encPrefix :: string where "encPrefix = ''ENC:''"
definition keySize :: nat where "keySize = 32"

definition HasPrefix :: "string \<Rightarrow> string \<Rightarrow> bool" where
  "HasPrefix s p = (take (length p) s = p)"

definition TrimPrefix :: "string \<Rightarrow> string \<Rightarrow> string" where
  "TrimPrefix s p = (if HasPrefix s p then drop (length p) s else s)"

text \<open>
  \<open>base64.StdEncoding\<close>: the standard alphabet with \<open>=\<close> padding. A byte is a
  \<open>char\<close>; \<open>of_char\<close> and \<open>char_of\<close> convert to and from its number.
\<close>

definition encodeStd :: string where
  "encodeStd = ''ABCDEFGHIJKLMNOPQRSTUVWXYZabcdefghijklmnopqrstuvwxyz0123456789+/''"

definition enc6 :: "nat \<Rightarrow> char" where
  "enc6 n = encodeStd ! n"

definition dec6 :: "char \<Rightarrow> nat option" where
  "dec6 c = map_of (zip encodeStd [0..<64]) c"

fun EncodeToString :: "string \<Rightarrow> string" where
  "EncodeToString [] = []"
| "EncodeToString [a] =
     [enc6 (of_char a div 4), enc6 ((of_char a mod 4) * 16), CHR ''='', CHR ''='']"
| "EncodeToString [a, b] =
     [enc6 (of_char a div 4), enc6 ((of_char a mod 4) * 16 + of_char b div 16),
      enc6 ((of_char b mod 16) * 4), CHR ''='']"
| "EncodeToString (a # b # c # rest) =
     [enc6 (of_char a div 4), enc6 ((of_char a mod 4) * 16 + of_char b div 16),
      enc6 ((of_char b mod 16) * 4 + of_char c div 64), enc6 (of_char c mod 64)] @
     EncodeToString rest"

text \<open>
  Decoding one quantum of four characters; in the last quantum one or two \<open>=\<close> stand
  for missing bytes. The bits left over in a padded quantum are not checked (the
  encoding is not the strict variant).
\<close>

definition decodeQuantum :: "bool \<Rightarrow> char \<Rightarrow> char \<Rightarrow> char \<Rightarrow> char \<Rightarrow> string option" where
  "decodeQuantum final a b c d =
     (case (dec6 a, dec6 b) of
        (Some x, Some y) \<Rightarrow>
          if final \<and> c = CHR ''='' \<and> d = CHR ''='' then
            Some [char_of (x * 4 + y div 16)]
          else (case dec6 c of
                  None \<Rightarrow> None
                | Some z \<Rightarrow>
                    if final \<and> d = CHR ''='' then
                      Some [char_of (x * 4 + y div 16), char_of ((y mod 16) * 16 + z div 4)]
                    else (case dec6 d of
                            None \<Rightarrow> None
                          | Some w \<Rightarrow>
                              Some [char_of (x * 4 + y div 16),
                                    char_of ((y mod 16) * 16 + z div 4),
                                    char_of ((z mod 4) * 64 + w)]))
      | _ \<Rightarrow> None)"

fun decodeQuanta :: "string \<Rightarrow> string option" where
  "decodeQuanta [] = Some []"
| "decodeQuanta (a # b # c # d # rest) =
     (case decodeQuantum (rest = []) a b c d of
        None \<Rightarrow> None
      | Some bytes \<Rightarrow>
          (case decodeQuanta rest of None \<Rightarrow> None | Some others \<Rightarrow> Some (bytes @ others)))"
| "decodeQuanta cs = None"

text \<open>
  \<open>DecodeString\<close> skips carriage returns and line feeds. The byte offset that Go's
  error message carries is left out.
\<close>

definition DecodeString :: "string \<Rightarrow> error + string" where
  "DecodeString s =
     (case decodeQuanta (filter (\<lambda>c. c \<noteq> CHR 0x0D \<and> c \<noteq> CHR 0x0A) s) of
        None \<Rightarrow> Inl (Errorf ''illegal base64 data'')
      | Some bytes \<Rightarrow> Inr bytes)"

text \<open>
  \<open>aes.NewCipher\<close> accepts keys of 16, 24 or 32 bytes; \<open>cipher.NewGCM\<close> does not
  fail on an AES block cipher, and its nonce has 12 bytes.
\<close>

definition aes_NewCipher :: "string \<Rightarrow> error option" where
  "aes_NewCipher key =
     (if length key = 16 \<or> length key = 24 \<or> length key = 32 then None
      else Some (Errorf (''crypto/aes: invalid key size '' @ itoa (int (length key)))))"

definition gcmNonceSize :: nat where "gcmNonceSize = 12"

text \<open>
  The AES-GCM primitive is the Go standard library's, not this repository's: it enters
  as the two functions \<open>gcmSeal key nonce plaintext\<close> (ciphertext and tag) and
  \<open>gcmOpen key nonce ciphertext\<close>. \<open>randRead\<close> is the outcome of
  \<open>io.ReadFull(rand.Reader, nonce)\<close>: an error or the bytes of the nonce.
\<close>

definition Encrypt ::
  "(string \<Rightarrow> string \<Rightarrow> string \<Rightarrow> string) \<Rightarrow> error + string \<Rightarrow> string \<Rightarrow> string \<Rightarrow>
   error + string" where
  "Encrypt gcmSeal randRead key plaintext =
     (case aes_NewCipher key of
        Some err \<Rightarrow> Inl (Errorf (''create cipher: '' @ Error err))
      | None \<Rightarrow>
          (case randRead of
             Inl err \<Rightarrow> Inl (Errorf (''generate nonce: '' @ Error err))
           | Inr nonce \<Rightarrow>
               (let ciphertext = nonce @ gcmSeal key nonce plaintext;
                    encoded = EncodeToString ciphertext
                in Inr (encPrefix @ encoded))))"

definition Decrypt ::
  "(string \<Rightarrow> string \<Rightarrow> string \<Rightarrow> error + string) \<Rightarrow> string \<Rightarrow> string \<Rightarrow>
   error + string" where
  "Decrypt gcmOpen key encrypted =
     (if \<not> HasPrefix encrypted encPrefix then
        Inl (Errorf (''invalid encrypted string: missing '' @ [CHR 0x22] @ encPrefix @
                     [CHR 0x22] @ '' prefix''))
      else
        (case DecodeString (TrimPrefix encrypted encPrefix) of
           Inl err \<Rightarrow> Inl (Errorf (''decode base64: '' @ Error err))
         | Inr data \<Rightarrow>
             (case aes_NewCipher key of
                Some err \<Rightarrow> Inl (Errorf (''create cipher: '' @ Error err))
              | None \<Rightarrow>
                  if length data < gcmNonceSize then Inl (Errorf ''ciphertext too short'')
                  else
                    (let nonce = take gcmNonceSize data;
                         ciphertext = drop gcmNonceSize data
                     in case gcmOpen key nonce ciphertext of
                          Inl err \<Rightarrow> Inl (Errorf (''decrypt: '' @ Error err))
                        | Inr plaintext \<Rightarrow> Inr plaintext))))"

definition IsEncrypted :: "string \<Rightarrow> bool" where
  "IsEncrypted s = HasPrefix s encPrefix"

section \<open>Topology order (cmd/topology.go)\<close>

record PlatformConfig =
  Token :: string

record ThresholdConfig =
  ResponseTimeMs :: int
  CPUPercent :: int
  MemoryPercent :: int

record ProjectConfig =
  Topology :: "ServiceEntry list"

record Config =
  DefaultProject :: string
  Platforms :: "string \<rightharpoonup> PlatformConfig"
  Projects :: "string \<rightharpoonup> ProjectConfig"
  Thresholds :: ThresholdConfig

text \<open>
  The command works on the configuration it loaded (\<open>st_cfg\<close>, mutated through the
  pointer) and \<open>config.Save\<close> writes it to the file (\<open>st_file\<close>, the stored
  configuration).
\<close>

record store =
  st_cfg :: Config
  st_file :: Config

text \<open>
  \<open>strings.ReplaceAll(input, "\<rightarrow>", "->")\<close>: the arrow is the three bytes E2 86 92
  of its UTF-8 encoding.
\<close>

fun replaceArrow :: "string \<Rightarrow> string" where
  "replaceArrow (a # b # c # cs) =
     (if a = CHR 0xE2 \<and> b = CHR 0x86 \<and> c = CHR 0x92 then ''->'' @ replaceArrow cs
      else a # replaceArrow (b # c # cs))"
| "replaceArrow cs = cs"

text \<open>
  \<open>strings.Split(input, "->")\<close>; \<open>cur\<close> holds the current part, reversed.
\<close>

fun splitArrow :: "string \<Rightarrow> string \<Rightarrow> string list" where
  "splitArrow cur (a # b # cs) =
     (if a = CHR ''-'' \<and> b = CHR ''>'' then rev cur # splitArrow [] cs
      else splitArrow (a # cur) (b # cs))"
| "splitArrow cur [a] = [rev (a # cur)]"
| "splitArrow cur [] = [rev cur]"

text \<open>
  \<open>strings.TrimSpace\<close> is a parameter of the model (\<open>trimSpace\<close>);
  \<open>asciiTrimSpace\<close> is what it does on a string whose white space is ASCII.
\<close>

definition asciiSpace :: "char \<Rightarrow> bool" where
  "asciiSpace c =
     (c = CHR '' '' \<or> c = CHR 0x09 \<or> c = CHR 0x0A \<or> c = CHR 0x0B \<or> c = CHR 0x0C \<or>
      c = CHR 0x0D)"

definition asciiTrimSpace :: "string \<Rightarrow> string" where
  "asciiTrimSpace s = rev (dropWhile asciiSpace (rev (dropWhile asciiSpace s)))"

definition parseNames :: "(string \<Rightarrow> string) \<Rightarrow> string \<Rightarrow> string list" where
  "parseNames trimSpace topologySet =
     filter (\<lambda>name. name \<noteq> '''') (map trimSpace (splitArrow [] (replaceArrow topologySet)))"

text \<open>
  \<open>%q\<close> of \<open>fmt.Errorf\<close>: the string in double quotes (the escaping of special
  characters inside it is not modelled).
\<close>

definition quoteQ :: "string \<Rightarrow> string" where
  "quoteQ s = [CHR 0x22] @ s @ [CHR 0x22]"

fun joinRest :: "string \<Rightarrow> string list \<Rightarrow> string" where
  "joinRest result [] = result"
| "joinRest result (n # ns) = joinRest (result @ '', '' @ n) ns"

definition joinNames :: "string list \<Rightarrow> string" where
  "joinNames names = (case names of [] \<Rightarrow> ''(none)'' | n # ns \<Rightarrow> joinRest n ns)"

text \<open>The lookup table from a service's name to its entry; a later entry overwrites.\<close>

fun buildSvcMap ::
  "(string \<rightharpoonup> ServiceEntry) \<Rightarrow> ServiceEntry list \<Rightarrow> (string \<rightharpoonup> ServiceEntry)" where
  "buildSvcMap svcMap [] = svcMap"
| "buildSvcMap svcMap (svc # svcs) = buildSvcMap (svcMap(Name svc \<mapsto> svc)) svcs"

text \<open>The first name that is not a key of the table, if there is one.\<close>

fun firstUnknown :: "(string \<rightharpoonup> ServiceEntry) \<Rightarrow> string list \<Rightarrow> string option" where
  "firstUnknown svcMap [] = None"
| "firstUnknown svcMap (name # names) =
     (case svcMap name of None \<Rightarrow> Some name | Some svc \<Rightarrow> firstUnknown svcMap names)"

text \<open>Reading a key that a Go map lacks gives the zero value.\<close>

definition lookupEntry :: "(string \<rightharpoonup> ServiceEntry) \<Rightarrow> string \<Rightarrow> ServiceEntry" where
  "lookupEntry svcMap name =
     (case svcMap name of
        None \<Rightarrow> \<lparr>Name = '''', Platform = '''', ID = ''''\<rparr>
      | Some svc \<Rightarrow> svc)"

fun reorderLoop ::
  "(string \<rightharpoonup> ServiceEntry) \<Rightarrow> string list \<Rightarrow> ServiceEntry list \<Rightarrow> string set \<Rightarrow>
   error + (ServiceEntry list \<times> string set)" where
  "reorderLoop svcMap [] reordered used = Inr (reordered, used)"
| "reorderLoop svcMap (name # names) reordered used =
     (if name \<in> used then
        Inl (Errorf (''duplicate service '' @ quoteQ name @ '' in --set value''))
      else reorderLoop svcMap names (reordered @ [lookupEntry svcMap name]) (insert name used))"

fun appendUnused :: "string set \<Rightarrow> ServiceEntry list \<Rightarrow> ServiceEntry list \<Rightarrow> ServiceEntry list"
  where
  "appendUnused used reordered [] = reordered"
| "appendUnused used reordered (svc # svcs) =
     appendUnused used (if Name svc \<notin> used then reordered @ [svc] else reordered) svcs"

text \<open>
  \<open>saveErr\<close> is the outcome of \<open>config.Save\<close>: on success the file holds the
  configuration that was saved; on failure the model leaves the file as it was.
\<close>

definition Save :: "error option \<Rightarrow> store \<Rightarrow> error option \<times> store" where
  "Save saveErr st =
     (case saveErr of
        Some err \<Rightarrow> (Some err, st)
      | None \<Rightarrow> (None, st\<lparr>st_file := st_cfg st\<rparr>))"

definition setTopologyOrder ::
  "(string \<Rightarrow> string) \<Rightarrow> error option \<Rightarrow> string \<Rightarrow> string \<Rightarrow> ProjectConfig \<Rightarrow> store \<Rightarrow>
   error option \<times> store" where
  "setTopologyOrder trimSpace saveErr topologySet projectName proj st =
     (let names = parseNames trimSpace topologySet in
      if names = [] then
        (Some (Errorf ''no service names provided in --set value''), st)
      else
        (let svcMap = buildSvcMap Map.empty (Topology proj) in
         case firstUnknown svcMap names of
           Some name \<Rightarrow>
             (Some (Errorf (''service '' @ quoteQ name @ '' not found in project '' @
                            quoteQ projectName @ [CHR 0x0A] @ ''Available services: '' @
                            joinNames (map Name (Topology proj)))), st)
         | None \<Rightarrow>
             (case reorderLoop svcMap names [] {} of
                Inl err \<Rightarrow> (Some err, st)
              | Inr (reordered, used) \<Rightarrow>
                  (let reordered = appendUnused used reordered (Topology proj);
                       proj = proj\<lparr>Topology := reordered\<rparr>;
                       cfg = st_cfg st;
                       st = st\<lparr>st_cfg := cfg\<lparr>Projects := (Projects cfg)(projectName \<mapsto> proj)\<rparr>\<rparr>
                   in case Save saveErr st of
                        (Some err, st) \<Rightarrow>
                          (Some (Errorf (''save config: '' @ Error err)), st)
                      | (None, st) \<Rightarrow> (None, st)))))"

text \<open>The topology the file holds for a project (empty when it has no such project).\<close>

definition storedTopology :: "store \<Rightarrow> string \<Rightarrow> ServiceEntry list" where
  "storedTopology st projectName =
     (case Projects (st_file st) projectName of None \<Rightarrow> [] | Some proj \<Rightarrow> Topology proj)"

section \<open>Example API replies\<close>

text \<open>Successful replies of the vendor APIs about one deployment, for examples.\<close>

definition vercelDeploy :: "string \<Rightarrow> string \<Rightarrow> vercelDeployment" where
  "vercelDeploy uid state =
     \<lparr>vd_UID = uid, vd_State = state, vd_ReadyState = '''', vd_Created = 0, vd_URL = '''',
      vd_GitCommitSha = '''', vd_GitCommitMessage = ''''\<rparr>"

definition vercelListReply :: "string \<Rightarrow> string \<Rightarrow> vercelDeployment list httpResult" where
  "vercelListReply uid state = Inr \<lparr>StatusCode = 200, Body = Inr [vercelDeploy uid state]\<rparr>"

definition vercelGetReply :: "string \<Rightarrow> string \<Rightarrow> vercelDeployment httpResult" where
  "vercelGetReply uid state = Inr \<lparr>StatusCode = 200, Body = Inr (vercelDeploy uid state)\<rparr>"

definition vercelNoLogs :: "vercelEvent list httpResult" where
  "vercelNoLogs = Inr \<lparr>StatusCode = 200, Body = Inr []\<rparr>"

definition koyebDeploy :: "string \<Rightarrow> string \<Rightarrow> koyebDeployment" where
  "koyebDeploy uid status =
     \<lparr>kd_Id = uid, kd_Status = status, kd_CreatedAt = 0, kd_HasGit = False, kd_GitSha = '''',
      kd_GitRepository = ''''\<rparr>"

definition koyebListReply :: "string \<Rightarrow> string \<Rightarrow> error + koyebDeployment list" where
  "koyebListReply uid status = Inr [koyebDeploy uid status]"

definition koyebGetReply :: "string \<Rightarrow> string \<Rightarrow> error + koyebDeployment" where
  "koyebGetReply uid status = Inr (koyebDeploy uid status)"

definition koyebNoLogs :: "koyebLogItem list httpResult" where
  "koyebNoLogs = Inr \<lparr>StatusCode = 200, Body = Inr []\<rparr>"

definition apiEntry :: ServiceEntry where
  "apiEntry = \<lparr>Name = ''api'', Platform = ''koyeb'', ID = ''svc_1''\<rparr>"


text \<open>A clock reading of \<open>s\<close> seconds, in nanoseconds.\<close>

definition sec :: "int \<Rightarrow> int" where
  "sec s = s * 1000000000"

section \<open>Notions used to state the properties\<close>

text \<open>
  A poll of the deployment list that succeeds and shows no deployment other than the
  baseline: the list is empty or its first (most recent) deployment has the baseline id.
\<close>

definition sameAsBaseline :: "string \<Rightarrow> error + Deployment list \<Rightarrow> bool" where
  "sameAsBaseline currentDeployID polled =
     (case polled of
        Inl err \<Rightarrow> False
      | Inr [] \<Rightarrow> True
      | Inr (d # ds) \<Rightarrow> dep_ID d = currentDeployID)"

text \<open>A poll whose most recent deployment is in progress.\<close>

definition inProgressPoll :: "error + Deployment list \<Rightarrow> bool" where
  "inProgressPoll polled =
     (case polled of
        Inl err \<Rightarrow> False
      | Inr [] \<Rightarrow> False
      | Inr (d # ds) \<Rightarrow> isInProgress (dep_Status d))"

text \<open>A tick that delivers a \<open>waiting\<close> event.\<close>

definition waitingTick :: "tick \<Rightarrow> bool" where
  "waitingTick tk = (case snd tk of Recv e \<Rightarrow> ev_Phase e = ''waiting'' | _ \<Rightarrow> False)"




definition deployment :: "string \<Rightarrow> string \<Rightarrow> Deployment" where
  "deployment uid status =
     \<lparr>dep_ID = uid, dep_Status = status, dep_Commit = '''', dep_Message = '''',
      dep_CreatedAt = 0, dep_Duration = 0, dep_URL = ''''\<rparr>"

text \<open>
  A project in which two services share a name, as \<open>project create --auto\<close> builds
  it when two platforms each have a service of that name, and a store that holds it.
\<close>

definition dupProject :: ProjectConfig where
  "dupProject =
     \<lparr>Topology = [\<lparr>Name = ''a'', Platform = ''vercel'', ID = ''1''\<rparr>,
                  \<lparr>Name = ''a'', Platform = ''supabase'', ID = ''2''\<rparr>]\<rparr>"

definition shopProject :: ProjectConfig where
  "shopProject =
     \<lparr>Topology = [\<lparr>Name = ''frontend'', Platform = ''vercel'', ID = ''prj_1''\<rparr>,
                  \<lparr>Name = ''api'', Platform = ''koyeb'', ID = ''svc_1''\<rparr>,
                  \<lparr>Name = ''db'', Platform = ''supabase'', ID = ''ref_1''\<rparr>]\<rparr>"

definition configOf :: "ProjectConfig \<Rightarrow> Config" where
  "configOf proj =
     \<lparr>DefaultProject = ''shop'', Platforms = Map.empty, Projects = [''shop'' \<mapsto> proj],
      Thresholds = \<lparr>ResponseTimeMs = 500, CPUPercent = 80, MemoryPercent = 85\<rparr>\<rparr>"

definition storeOf :: "ProjectConfig \<Rightarrow> store" where
  "storeOf proj = \<lparr>st_cfg = configOf proj, st_file = configOf proj\<rparr>"

text \<open>
  The topology a successful \<open>--set\<close> is to produce: the named services in the given
  order, then the services that were not named, in their previous order.
\<close>

definition reordered :: "ServiceEntry list \<Rightarrow> string list \<Rightarrow> ServiceEntry list" where
  "reordered topo names =
     map (lookupEntry (buildSvcMap Map.empty topo)) names @
     filter (\<lambda>s. Name s \<notin> set names) topo"

text \<open>The \<open>--set\<close> value \<open>db \<rightarrow> frontend\<close>, the arrow in UTF-8.\<close>

definition dbFirst :: string where
  "dbFirst = ''db '' @ [CHR 0xE2, CHR 0x86, CHR 0x92] @ '' frontend''"

section \<open>Properties of the vendor status mappings\<close>






section \<open>Reducing outcomes to one exit code\<close>

lemma worstLoop_step: "worstLoop w (r # rs) = worstLoop (max w (res_ExitCode r)) rs"
  by (simp add: max_def not_less)

lemma worstLoop_Max:
  "worstLoop w rs = Max (insert w (res_ExitCode ` set rs))"
proof (induction rs arbitrary: w)
  case Nil
  then show ?case by simp
next
  case (Cons r rs)
  have "Max (insert w (insert (res_ExitCode r) (res_ExitCode ` set rs))) =
        Max (insert (max w (res_ExitCode r)) (res_ExitCode ` set rs))"
    by (cases "set rs = {}") (simp_all add: max.assoc)
  with Cons.IH [of "max w (res_ExitCode r)"] show ?case
    unfolding worstLoop_step by simp
qed

lemma failedLoop_failed:
  "\<exists>r\<in>set rs. res_ExitCode r = exitFailed \<Longrightarrow> failedLoop w rs = exitFailed"
  by (induction rs) auto

lemma failedLoop_none:
  "\<forall>r\<in>set rs. res_ExitCode r \<noteq> exitFailed \<Longrightarrow> failedLoop w rs = w"
  by (induction rs) auto

lemma processExitCode_worstCode: "processExitCode rs = worstCode rs"
  by (simp add: processExitCode_def runWatchMulti_def Execute_def Let_def exitSuccess_def)

lemma worstCode_set:
  "worstCode rs =
     (if \<exists>r\<in>set rs. res_ExitCode r = exitFailed then exitFailed
      else Max (insert exitSuccess (res_ExitCode ` set rs)))"
  by (simp add: worstCode_def failedLoop_failed failedLoop_none worstLoop_Max)

text \<open>
  Claim C1. For every non-empty sequence of watch results whose exit codes are among
  success = 0, failed = 1, no_deployment = 2 and timeout = 3, the process exit code of the
  multi-service watch is 1 if any result failed, and otherwise the numerically highest
  of the results' codes (so timeout outranks no_deployment, which outranks success); it
  does not depend on the order of the results.
\<close>

theorem C1_exit_code_reduction:
  assumes "rs \<noteq> []"
    and "\<forall>r\<in>set rs. res_ExitCode r \<in> {exitSuccess, exitFailed, exitNoDeployment, exitTimeout}"
  shows "processExitCode rs =
           (if \<exists>r\<in>set rs. res_ExitCode r = exitFailed then 1
            else Max (res_ExitCode ` set rs)) \<and>
         exitSuccess = 0 \<and> exitFailed = 1 \<and> exitNoDeployment = 2 \<and> exitTimeout = 3 \<and>
         (\<forall>rs'. mset rs' = mset rs \<longrightarrow> processExitCode rs' = processExitCode rs)"
proof -
  have codes: "exitSuccess = 0 \<and> exitFailed = 1 \<and> exitNoDeployment = 2 \<and> exitTimeout = 3"
    by (simp add: exitSuccess_def exitFailed_def exitNoDeployment_def exitTimeout_def)
  have fin: "finite (res_ExitCode ` set rs)" and ne: "res_ExitCode ` set rs \<noteq> {}"
    using assms(1) by simp_all
  have "\<forall>c\<in>res_ExitCode ` set rs. 0 \<le> c"
    using assms(2) codes by auto
  then have "0 \<le> Max (res_ExitCode ` set rs)"
    using fin ne by (meson Max_in)
  then have "Max (insert exitSuccess (res_ExitCode ` set rs)) = Max (res_ExitCode ` set rs)"
    using fin ne codes by simp
  then have main: "processExitCode rs =
      (if \<exists>r\<in>set rs. res_ExitCode r = exitFailed then 1 else Max (res_ExitCode ` set rs))"
    using codes by (simp add: processExitCode_worstCode worstCode_set)
  have "processExitCode rs' = processExitCode rs" if "mset rs' = mset rs" for rs'
  proof -
    from that have "set rs' = set rs" by (rule mset_eq_setD)
    then show ?thesis by (simp add: processExitCode_worstCode worstCode_set)
  qed
  with main codes show ?thesis by blast
qed

theorem C1_exit_code_reduction_witness:
  "processExitCode [outcome exitSuccess, outcome exitTimeout] = 3 \<and>
   processExitCode [outcome exitFailed, outcome exitSuccess] = 1 \<and>
   processExitCode [outcome exitSuccess, outcome exitFailed] = 1 \<and>
   processExitCode [outcome exitNoDeployment, outcome exitTimeout, outcome exitSuccess] = 3"
proof -
  have c: "exitSuccess = 0 \<and> exitFailed = 1 \<and> exitNoDeployment = 2 \<and> exitTimeout = 3"
    by (simp add: exitSuccess_def exitFailed_def exitNoDeployment_def exitTimeout_def)
  have a: "processExitCode [outcome exitSuccess, outcome exitTimeout] = 3"
    using C1_exit_code_reduction [of "[outcome exitSuccess, outcome exitTimeout]"] c
    by (simp add: outcome_def)
  have b: "processExitCode [outcome exitFailed, outcome exitSuccess] = 1"
    using C1_exit_code_reduction [of "[outcome exitFailed, outcome exitSuccess]"] c
    by (simp add: outcome_def)
  have d: "processExitCode [outcome exitSuccess, outcome exitFailed] = 1"
    using C1_exit_code_reduction [of "[outcome exitSuccess, outcome exitFailed]"] c
    by (simp add: outcome_def)
  have e: "processExitCode [outcome exitNoDeployment, outcome exitTimeout, outcome exitSuccess]
           = 3"
    using C1_exit_code_reduction
      [of "[outcome exitNoDeployment, outcome exitTimeout, outcome exitSuccess]"] c
    by (simp add: outcome_def)
  from a b d e show ?thesis by blast
qed

section \<open>Phase-change events of the tracking loop\<close>

lemma fst_send [simp]: "fst (send e ch) = e # fst ch"
  by (simp add: send_def)

lemma snd_send [simp]: "snd (send e ch) = snd ch"
  by (simp add: send_def)

text \<open>
  With the phase last emitted in front, the phases of the events the loop sends never
  repeat from one to the next. The loop never runs with \<open>failed\<close> as its last phase: it
  returns when it emits that phase.
\<close>

lemma vercel_track_adj:
  "lastPhase \<noteq> ''failed'' \<Longrightarrow>
   distinct_adj (lastPhase #
     map ev_Phase (fst (vercel_trackDeployment deployID lastPhase gs logsReply)))"
proof (induction gs arbitrary: lastPhase)
  case Nil
  then show ?case by simp
next
  case (Cons g gs)
  show ?case
  proof (cases "vercel_GetDeployment deployID g")
    case (Inl err)
    with Cons.prems show ?thesis by (simp add: failedEvent_def)
  next
    case (Inr deploy)
    let ?phase = "mapVercelToWatchPhase (dep_Status deploy)"
    show ?thesis
    proof (cases "?phase = lastPhase")
      case True
      with Inr Cons.IH [OF Cons.prems] show ?thesis by simp
    next
      case False
      then have ne: "lastPhase \<noteq> ?phase" by blast
      show ?thesis
      proof (cases "?phase = ''done'' \<or> ?phase = ''failed''")
        case True
        with Inr False ne show ?thesis by (auto simp: Let_def)
      next
        case False
        then have "?phase \<noteq> ''failed''" by blast
        from Cons.IH [OF this] Inr False ne show ?thesis by (auto simp: Let_def)
      qed
    qed
  qed
qed

lemma koyeb_track_adj:
  "lastPhase \<noteq> ''failed'' \<Longrightarrow>
   distinct_adj (lastPhase #
     map ev_Phase (fst (koyeb_trackDeployment deployID lastPhase gs logsReply)))"
proof (induction gs arbitrary: lastPhase)
  case Nil
  then show ?case by simp
next
  case (Cons g gs)
  show ?case
  proof (cases "koyeb_GetDeployment g")
    case (Inl err)
    with Cons.prems show ?thesis by (simp add: failedEvent_def)
  next
    case (Inr deploy)
    let ?phase = "mapKoyebToWatchPhase (dep_Status deploy)"
    show ?thesis
    proof (cases "?phase = lastPhase")
      case True
      with Inr Cons.IH [OF Cons.prems] show ?thesis by simp
    next
      case False
      then have ne: "lastPhase \<noteq> ?phase" by blast
      show ?thesis
      proof (cases "?phase = ''done'' \<or> ?phase = ''failed''")
        case True
        with Inr False ne show ?thesis by (auto simp: Let_def)
      next
        case False
        then have "?phase \<noteq> ''failed''" by blast
        from Cons.IH [OF this] Inr False ne show ?thesis by (auto simp: Let_def)
      qed
    qed
  qed
qed

text \<open>A second poll that reports the status of the poll before it sends nothing.\<close>

lemma vercel_track_repeat:
  assumes "vercel_GetDeployment deployID g = Inr d"
    and "vercel_GetDeployment deployID g' = Inr d'"
    and "dep_Status d = dep_Status d'"
  shows "vercel_trackDeployment deployID lastPhase (g # g' # rest) logsReply =
         vercel_trackDeployment deployID lastPhase (g # rest) logsReply"
  using assms by (simp add: Let_def)

lemma koyeb_track_repeat:
  assumes "koyeb_GetDeployment g = Inr d"
    and "koyeb_GetDeployment g' = Inr d'"
    and "dep_Status d = dep_Status d'"
  shows "koyeb_trackDeployment deployID lastPhase (g # g' # rest) logsReply =
         koyeb_trackDeployment deployID lastPhase (g # rest) logsReply"
  using assms by (simp add: Let_def)

text \<open>
  Claim C5. While a deployment is tracked, both adapters emit an event only when the
  mapped watch phase differs from the phase emitted before: from the start of tracking,
  no two consecutive events carry the same phase, and a poll that returns the same status
  as the poll before it changes nothing in what is sent (two such polls send what one
  sends, so at most one event).
\<close>

theorem C5_phase_change_events_idempotent:
  "distinct_adj (map ev_Phase (fst (vercel_trackDeployment deployID '''' vgs vlogs))) \<and>
   distinct_adj (map ev_Phase (fst (koyeb_trackDeployment deployID '''' kgs klogs))) \<and>
   (vercel_GetDeployment deployID vg = Inr vd \<and> vercel_GetDeployment deployID vg' = Inr vd' \<and>
    dep_Status vd = dep_Status vd' \<longrightarrow>
      vercel_trackDeployment deployID lastPhase (vg # vg' # vrest) vlogs =
      vercel_trackDeployment deployID lastPhase (vg # vrest) vlogs \<and>
      length (fst (vercel_trackDeployment deployID lastPhase [vg, vg'] vlogs)) \<le> 1) \<and>
   (koyeb_GetDeployment kg = Inr kd \<and> koyeb_GetDeployment kg' = Inr kd' \<and>
    dep_Status kd = dep_Status kd' \<longrightarrow>
      koyeb_trackDeployment deployID lastPhase (kg # kg' # krest) klogs =
      koyeb_trackDeployment deployID lastPhase (kg # krest) klogs \<and>
      length (fst (koyeb_trackDeployment deployID lastPhase [kg, kg'] klogs)) \<le> 1)"
proof -
  have v: "distinct_adj (map ev_Phase (fst (vercel_trackDeployment deployID '''' vgs vlogs)))"
    using vercel_track_adj [of "''''" deployID vgs vlogs] by (auto dest: distinct_adj_ConsD)
  have k: "distinct_adj (map ev_Phase (fst (koyeb_trackDeployment deployID '''' kgs klogs)))"
    using koyeb_track_adj [of "''''" deployID kgs klogs] by (auto dest: distinct_adj_ConsD)
  have vone: "length (fst (vercel_trackDeployment deployID lastPhase [vg] vlogs)) \<le> 1"
    by (simp add: Let_def split: sum.splits)
  have kone: "length (fst (koyeb_trackDeployment deployID lastPhase [kg] klogs)) \<le> 1"
    by (simp add: Let_def split: sum.splits)
  from v k vone kone show ?thesis
    by (metis vercel_track_repeat koyeb_track_repeat)
qed

theorem C5_phase_change_events_witness:
  "vercel_trackDeployment ''d2'' ''''
     [vercelGetReply ''d2'' ''BUILDING'', vercelGetReply ''d2'' ''BUILDING''] vercelNoLogs =
   vercel_trackDeployment ''d2'' '''' [vercelGetReply ''d2'' ''BUILDING''] vercelNoLogs \<and>
   map ev_Phase (fst (vercel_trackDeployment ''d2'' ''''
     [vercelGetReply ''d2'' ''BUILDING'', vercelGetReply ''d2'' ''BUILDING''] vercelNoLogs)) =
   [''building''] \<and>
   koyeb_trackDeployment ''d2'' ''''
     [koyebGetReply ''d2'' ''PROVISIONING'', koyebGetReply ''d2'' ''PROVISIONING''] koyebNoLogs =
   koyeb_trackDeployment ''d2'' '''' [koyebGetReply ''d2'' ''PROVISIONING''] koyebNoLogs \<and>
   map ev_Phase (fst (koyeb_trackDeployment ''d2'' ''''
     [koyebGetReply ''d2'' ''PROVISIONING'', koyebGetReply ''d2'' ''PROVISIONING''] koyebNoLogs)) =
   [''building'']"
proof -
  obtain vd where vd: "vercel_GetDeployment ''d2'' (vercelGetReply ''d2'' ''BUILDING'') = Inr vd"
    by (simp add: vercel_GetDeployment_def vercelGetReply_def vercelDeploy_def)
  obtain kd where kd: "koyeb_GetDeployment (koyebGetReply ''d2'' ''PROVISIONING'') = Inr kd"
    by (simp add: koyeb_GetDeployment_def koyebGetReply_def koyebDeploy_def)
  have v1: "map ev_Phase (fst (vercel_trackDeployment ''d2'' ''''
      [vercelGetReply ''d2'' ''BUILDING''] vercelNoLogs)) = [''building'']"
    by (simp add: vercel_GetDeployment_def vercelGetReply_def vercelDeploy_def
        mapVercelState_def mapVercelToWatchPhase_def Let_def)
  have k1: "map ev_Phase (fst (koyeb_trackDeployment ''d2'' ''''
      [koyebGetReply ''d2'' ''PROVISIONING''] koyebNoLogs)) = [''building'']"
    by (simp add: koyeb_GetDeployment_def koyebGetReply_def koyebDeploy_def
        mapKoyebDeployStatus_def mapKoyebToWatchPhase_def Let_def)
  from C5_phase_change_events_idempotent
    [of "''d2''" "[]" vercelNoLogs "[]" koyebNoLogs
      "vercelGetReply ''d2'' ''BUILDING''" vd "vercelGetReply ''d2'' ''BUILDING''" vd
      "''''" "[]"
      "koyebGetReply ''d2'' ''PROVISIONING''" kd "koyebGetReply ''d2'' ''PROVISIONING''" kd
      "[]"]
    vd kd v1 k1
  show ?thesis by simp
qed

section \<open>Detection at the start of a watch\<close>

text \<open>
  The Vercel goroutine's first poll: a most recent deployment that is in progress is
  announced at once and tracked, whatever its id.
\<close>

lemma vercel_in_progress_detected:
  assumes "vercel_ListDeployments l = Inr (d # ds)" and "isInProgress (dep_Status d)"
  shows "vercel_goroutine currentDeployID (l # ls) getReplies logsReply =
         send \<lparr>ev_Phase = ''detected'',
               ev_Message = ''In-progress deployment found ('' @ dep_ID d @ '')'',
               ev_Deploy = Some d, ev_Error = None, ev_Logs = []\<rparr>
           (vercel_trackDeployment (dep_ID d) '''' getReplies logsReply)"
  using assms by (simp add: vercel_goroutine_def)

text \<open>
  The Koyeb goroutine compares ids only: while every poll shows the baseline id it sends
  \<open>waiting\<close>, whatever the status of that deployment.
\<close>

lemma koyeb_goroutine_waits:
  "\<forall>l\<in>set ls. sameAsBaseline currentDeployID (koyeb_ListDeployments l) \<Longrightarrow>
   koyeb_goroutine currentDeployID ls getReplies logsReply =
     (replicate (length ls) waitingEvent, False)"
proof (induction ls)
  case Nil
  then show ?case by simp
next
  case (Cons l ls)
  then have rest: "koyeb_goroutine currentDeployID ls getReplies logsReply =
      (replicate (length ls) waitingEvent, False)" by simp
  from Cons.prems have "sameAsBaseline currentDeployID (koyeb_ListDeployments l)" by simp
  then show ?case using rest
    by (auto simp: sameAsBaseline_def send_def split: sum.splits list.splits)
qed


lemma koyebListReply_eval:
  "koyeb_ListDeployments (koyebListReply uid status) =
     Inr [\<lparr>dep_ID = uid, dep_Status = mapKoyebDeployStatus status, dep_Commit = '''',
           dep_Message = '''', dep_CreatedAt = 0, dep_Duration = 0, dep_URL = ''''\<rparr>]"
  by (simp add: koyeb_ListDeployments_def koyebListReply_def koyebDeploy_def)

lemma vercelListReply_eval:
  "vercel_ListDeployments (vercelListReply uid state) =
     Inr [\<lparr>dep_ID = uid, dep_Status = mapVercelState state, dep_Commit = '''',
           dep_Message = '''', dep_CreatedAt = 0, dep_Duration = 0, dep_URL = ''https://''\<rparr>]"
  by (simp add: vercel_ListDeployments_def vercelListReply_def vercelDeploy_def)

text \<open>
  Claim C4, at the input where the code departs from it. The most recent Koyeb
  deployment \<open>d1\<close> is in progress (vendor status PROVISIONING, normalised
  \<open>building\<close>) when the watch starts with baseline \<open>d1\<close>: the Koyeb goroutine sends
  \<open>waiting\<close> at every poll and never \<open>detected\<close>, and the session ends with
  no_deployment when the detect-deadline fires. On the same input the Vercel goroutine
  sends \<open>detected\<close> for \<open>d1\<close> at its first poll.
\<close>

theorem C4_koyeb_in_progress_not_detected:
  "inProgressPoll (koyeb_ListDeployments (koyebListReply ''d1'' ''PROVISIONING'')) \<and>
   koyeb_WatchDeployment ''svc_1'' ''d1''
     (replicate 3 (koyebListReply ''d1'' ''PROVISIONING'')) [] koyebNoLogs =
     Inr ([waitingEvent, waitingEvent, waitingEvent], False) \<and>
   map_option res_ExitCode
     (watchSingleService apiEntry (koyeb_ListDeployments (koyebListReply ''d1'' ''PROVISIONING''))
        (koyeb_WatchDeployment ''svc_1'' ''d1''
           (replicate 3 (koyebListReply ''d1'' ''PROVISIONING'')) [] koyebNoLogs)
        (chanTicks [sec 0, sec 3, sec 6] (sec 9)
           (koyeb_goroutine ''d1'' (replicate 3 (koyebListReply ''d1'' ''PROVISIONING'')) []
              koyebNoLogs) @
         [(sec 60, DetectDeadline)])) = Some exitNoDeployment \<and>
   inProgressPoll (vercel_ListDeployments (vercelListReply ''d1'' ''BUILDING'')) \<and>
   map ev_Phase (fst (vercel_goroutine ''d1'' [vercelListReply ''d1'' ''BUILDING''] []
     vercelNoLogs)) = [''detected'']"
proof -
  have a: "inProgressPoll (koyeb_ListDeployments (koyebListReply ''d1'' ''PROVISIONING''))"
    by (simp add: koyebListReply_eval inProgressPoll_def mapKoyebDeployStatus_def
        isInProgress_def)
  have same: "sameAsBaseline ''d1'' (koyeb_ListDeployments (koyebListReply ''d1'' ''PROVISIONING''))"
    by (simp add: koyebListReply_eval sameAsBaseline_def)
  have b: "koyeb_goroutine ''d1'' (replicate 3 (koyebListReply ''d1'' ''PROVISIONING'')) []
      koyebNoLogs = ([waitingEvent, waitingEvent, waitingEvent], False)"
    using koyeb_goroutine_waits
      [of "replicate 3 (koyebListReply ''d1'' ''PROVISIONING'')" "''d1''" "[]" koyebNoLogs] same
    by (simp add: numeral_3_eq_3)
  have c: "map_option res_ExitCode
     (watchSingleService apiEntry (koyeb_ListDeployments (koyebListReply ''d1'' ''PROVISIONING''))
        (koyeb_WatchDeployment ''svc_1'' ''d1''
           (replicate 3 (koyebListReply ''d1'' ''PROVISIONING'')) [] koyebNoLogs)
        (chanTicks [sec 0, sec 3, sec 6] (sec 9)
           (koyeb_goroutine ''d1'' (replicate 3 (koyebListReply ''d1'' ''PROVISIONING'')) []
              koyebNoLogs) @
         [(sec 60, DetectDeadline)])) = Some exitNoDeployment"
    by (simp add: b chanTicks_def watchSingleService_def koyebListReply_eval
        koyeb_WatchDeployment_def baselineID_def waitingEvent_def Let_def)
  have d: "inProgressPoll (vercel_ListDeployments (vercelListReply ''d1'' ''BUILDING''))"
    by (simp add: vercelListReply_eval inProgressPoll_def mapVercelState_def isInProgress_def)
  have e: "map ev_Phase (fst (vercel_goroutine ''d1'' [vercelListReply ''d1'' ''BUILDING''] []
     vercelNoLogs)) = [''detected'']"
    by (simp add: vercel_goroutine_def vercelListReply_eval mapVercelState_def isInProgress_def)
  from a b c d e show ?thesis by (simp add: koyeb_WatchDeployment_def)
qed

section \<open>Adapters without deployment watching\<close>


section \<open>The watch session: deadlines\<close>


lemma watchLoopQuiet_waiting:
  "\<forall>tk\<in>set pre. waitingTick tk \<Longrightarrow>
   watchLoopQuiet detected result (pre @ rest) = watchLoopQuiet detected result rest"
proof (induction pre)
  case Nil
  then show ?case by simp
next
  case (Cons tk pre)
  obtain t c where tk: "tk = (t, c)" by (cases tk)
  from Cons.prems have "waitingTick tk" by simp
  with tk obtain e where "c = Recv e" and "ev_Phase e = ''waiting''"
    by (auto simp: waitingTick_def split: selectCase.splits)
  with tk Cons show ?case by simp
qed



lemma onDetected_keeps [simp]:
  "res_Phase (onDetected e result) = res_Phase result"
  "res_ExitCode (onDetected e result) = res_ExitCode result"
  by (simp_all add: onDetected_def split: option.splits)


lemma wholeSeconds_sec [simp]: "wholeSeconds (sec s) = s"
proof -
  have "(- s * 1000000000) div 1000000000 = - s" by simp
  then have "- (s * 1000000000) div 1000000000 = - s" by (simp only: mult_minus_left)
  then show ?thesis by (simp add: wholeSeconds_def sec_def)
qed



text \<open>
  The quiet session handles the detect-deadline as the single-service session does, but
  it does not copy the baseline id into the result.
\<close>

lemma quiet_no_deployment:
  assumes "\<forall>tk\<in>set pre. waitingTick tk"
  shows "watchSingleServiceQuiet entry (Inr deploys) (Inr ch) (pre @ (t, DetectDeadline) # rest) =
         Some ((newResult entry)\<lparr>res_ExitCode := exitNoDeployment,
                                  res_WaitedSec := wholeSeconds t,
                                  res_Error := ''No new deployment detected''\<rparr>)"
  using watchLoopQuiet_waiting [OF assms]
  by (simp add: watchSingleServiceQuiet_def Let_def)







section \<open>Structured output of a result\<close>







section \<open>Setting the topology order\<close>

lemma buildSvcMap_other:
  "n \<notin> Name ` set topo \<Longrightarrow> buildSvcMap m topo n = m n"
  by (induction topo arbitrary: m) auto

lemma buildSvcMap_dom: "dom (buildSvcMap m topo) = dom m \<union> Name ` set topo"
  by (induction topo arbitrary: m) auto

lemma buildSvcMap_lookup:
  "distinct (map Name topo) \<Longrightarrow> s \<in> set topo \<Longrightarrow> buildSvcMap m topo (Name s) = Some s"
proof (induction topo arbitrary: m)
  case Nil
  then show ?case by simp
next
  case (Cons x xs)
  show ?case
  proof (cases "s = x")
    case True
    with Cons.prems have "Name x \<notin> Name ` set xs" by simp
    with True show ?thesis by (simp add: buildSvcMap_other)
  next
    case False
    with Cons show ?thesis by simp
  qed
qed

lemma firstUnknown_None: "firstUnknown m names = None \<longleftrightarrow> set names \<subseteq> dom m"
  by (induction names) (auto split: option.splits)

lemma reorderLoop_ok:
  "distinct names \<Longrightarrow> set names \<inter> used = {} \<Longrightarrow>
   reorderLoop m names acc used = Inr (acc @ map (lookupEntry m) names, used \<union> set names)"
  by (induction names arbitrary: acc used) auto

lemma reorderLoop_dup:
  "\<not> (distinct names \<and> set names \<inter> used = {}) \<Longrightarrow>
   \<exists>e. reorderLoop m names acc used = Inl e"
proof (induction names arbitrary: acc used)
  case Nil
  then show ?case by simp
next
  case (Cons name names)
  show ?case
  proof (cases "name \<in> used")
    case True
    then show ?thesis by simp
  next
    case False
    with Cons.prems have "\<not> (distinct names \<and> set names \<inter> insert name used = {})"
      by auto
    from Cons.IH [OF this] False show ?thesis by simp
  qed
qed

lemma appendUnused_filter:
  "appendUnused used acc svcs = acc @ filter (\<lambda>s. Name s \<notin> used) svcs"
  by (induction svcs arbitrary: acc) auto

lemma setTopologyOrder_ok:
  assumes "parseNames trimSpace topologySet = names" and "names \<noteq> []"
    and "set names \<subseteq> Name ` set (Topology proj)" and "distinct names"
  shows "setTopologyOrder trimSpace None topologySet projectName proj st =
         (None, st\<lparr>st_cfg := (st_cfg st)\<lparr>Projects := (Projects (st_cfg st))
                      (projectName \<mapsto> proj\<lparr>Topology := reordered (Topology proj) names\<rparr>)\<rparr>,
                    st_file := (st_cfg st)\<lparr>Projects := (Projects (st_cfg st))
                      (projectName \<mapsto> proj\<lparr>Topology := reordered (Topology proj) names\<rparr>)\<rparr>\<rparr>)"
proof -
  have fu: "firstUnknown (buildSvcMap Map.empty (Topology proj)) names = None"
    using assms(3) by (simp add: firstUnknown_None buildSvcMap_dom)
  have rl: "reorderLoop (buildSvcMap Map.empty (Topology proj)) names [] {} =
      Inr (map (lookupEntry (buildSvcMap Map.empty (Topology proj))) names, set names)"
    using reorderLoop_ok [OF assms(4), of "{}"] by simp
  show ?thesis
    using assms(1,2) fu rl
    by (simp add: setTopologyOrder_def Let_def appendUnused_filter reordered_def Save_def)
qed

lemma setTopologyOrder_error:
  assumes "parseNames trimSpace topologySet = names"
    and "names = [] \<or> \<not> set names \<subseteq> Name ` set (Topology proj) \<or> \<not> distinct names"
  shows "\<exists>e. setTopologyOrder trimSpace saveErr topologySet projectName proj st = (Some e, st)"
proof (cases "names = []")
  case True
  with assms(1) show ?thesis by (simp add: setTopologyOrder_def)
next
  case ne: False
  show ?thesis
  proof (cases "set names \<subseteq> Name ` set (Topology proj)")
    case False
    then have "firstUnknown (buildSvcMap Map.empty (Topology proj)) names \<noteq> None"
      by (simp add: firstUnknown_None buildSvcMap_dom)
    then obtain n where "firstUnknown (buildSvcMap Map.empty (Topology proj)) names = Some n"
      by blast
    with assms(1) ne show ?thesis by (simp add: setTopologyOrder_def Let_def)
  next
    case True
    then have fu: "firstUnknown (buildSvcMap Map.empty (Topology proj)) names = None"
      by (simp add: firstUnknown_None buildSvcMap_dom)
    from True ne assms(2) have "\<not> distinct names" by blast
    then obtain e where "reorderLoop (buildSvcMap Map.empty (Topology proj)) names [] {} = Inl e"
      using reorderLoop_dup [of names "{}"] by blast
    with assms(1) ne fu show ?thesis by (simp add: setTopologyOrder_def Let_def)
  qed
qed

lemma lookupEntry_name:
  assumes "distinct (map Name topo)" and "n \<in> Name ` set topo"
  shows "lookupEntry (buildSvcMap Map.empty topo) n \<in> set topo \<and>
         Name (lookupEntry (buildSvcMap Map.empty topo) n) = n"
proof -
  from assms(2) obtain s where "s \<in> set topo" and "Name s = n" by blast
  with buildSvcMap_lookup [OF assms(1), of s Map.empty] show ?thesis
    by (auto simp: lookupEntry_def)
qed

lemma reordered_perm:
  assumes "distinct (map Name topo)" and "set names \<subseteq> Name ` set topo" and "distinct names"
  shows "mset (reordered topo names) = mset topo"
proof -
  let ?look = "lookupEntry (buildSvcMap Map.empty topo)"
  let ?named = "filter (\<lambda>s. Name s \<in> set names) topo"
  have dt: "distinct topo" using assms(1) by (simp add: distinct_map)
  have nm: "Name (?look n) = n" and mem: "?look n \<in> set topo" if "n \<in> set names" for n
    using lookupEntry_name [OF assms(1), of n] that assms(2) by blast+
  have "inj_on ?look (set names)"
    by (rule inj_onI) (metis nm)
  then have d1: "distinct (map ?look names)"
    using assms(3) by (simp add: distinct_map)
  have d2: "distinct ?named" using dt by simp
  have "set (map ?look names) = set ?named"
  proof (rule set_eqI, rule iffI)
    fix s assume "s \<in> set (map ?look names)"
    then obtain n where "n \<in> set names" and "s = ?look n" by auto
    then show "s \<in> set ?named" using nm mem by simp
  next
    fix s assume "s \<in> set ?named"
    then have s: "s \<in> set topo" and n: "Name s \<in> set names" by simp_all
    from buildSvcMap_lookup [OF assms(1) s, of Map.empty] have "?look (Name s) = s"
      by (simp add: lookupEntry_def)
    with n show "s \<in> set (map ?look names)" by force
  qed
  with d1 d2 have "mset (map ?look names) = mset ?named"
    by (rule iffD1 [OF set_eq_iff_mset_eq_distinct])
  moreover have "mset ?named + mset (filter (\<lambda>s. Name s \<notin> set names) topo) = mset topo"
    by (simp only: mset_filter) (rule multiset_partition [symmetric])
  ultimately show ?thesis
    by (simp only: reordered_def mset_append)
qed

lemma reordered_shape:
  assumes "distinct (map Name topo)" and "set names \<subseteq> Name ` set topo"
  shows "map Name (take (length names) (reordered topo names)) = names \<and>
         drop (length names) (reordered topo names) = filter (\<lambda>s. Name s \<notin> set names) topo"
proof -
  have "map Name (map (lookupEntry (buildSvcMap Map.empty topo)) names) = names"
    using lookupEntry_name [OF assms(1)] assms(2)
    by (induction names) auto
  then show ?thesis by (simp add: reordered_def)
qed

text \<open>
  Claim C10, as amended. In a project whose service names are pairwise distinct: if the
  names of the \<open>--set\<close> value (at least one) all exist in the project and contain no
  duplicates, and the configuration is saved, the stored topology is a permutation of
  the previous one, the named services first in the given order, then the services not
  named in their previous relative order. If a name is unknown or duplicated, an error
  is returned and neither the stored configuration nor the loaded one is changed.
\<close>

theorem C10_topology_order_permutation:
  assumes "distinct (map Name (Topology proj))"
    and "parseNames trimSpace topologySet = names"
  shows "(names \<noteq> [] \<and> set names \<subseteq> Name ` set (Topology proj) \<and> distinct names \<longrightarrow>
            fst (setTopologyOrder trimSpace None topologySet projectName proj st) = None \<and>
            storedTopology (snd (setTopologyOrder trimSpace None topologySet projectName proj st))
              projectName = reordered (Topology proj) names \<and>
            mset (reordered (Topology proj) names) = mset (Topology proj) \<and>
            map Name (take (length names) (reordered (Topology proj) names)) = names \<and>
            drop (length names) (reordered (Topology proj) names) =
              filter (\<lambda>s. Name s \<notin> set names) (Topology proj)) \<and>
         (\<not> set names \<subseteq> Name ` set (Topology proj) \<or> \<not> distinct names \<longrightarrow>
            fst (setTopologyOrder trimSpace saveErr topologySet projectName proj st) \<noteq> None \<and>
            snd (setTopologyOrder trimSpace saveErr topologySet projectName proj st) = st)"
proof -
  have ok: "fst (setTopologyOrder trimSpace None topologySet projectName proj st) = None \<and>
      storedTopology (snd (setTopologyOrder trimSpace None topologySet projectName proj st))
        projectName = reordered (Topology proj) names"
    if "names \<noteq> []" "set names \<subseteq> Name ` set (Topology proj)" "distinct names"
    using setTopologyOrder_ok [OF assms(2) that, of projectName st]
    by (simp add: storedTopology_def)
  have err: "fst (setTopologyOrder trimSpace saveErr topologySet projectName proj st) \<noteq> None \<and>
      snd (setTopologyOrder trimSpace saveErr topologySet projectName proj st) = st"
    if "\<not> set names \<subseteq> Name ` set (Topology proj) \<or> \<not> distinct names"
  proof -
    from that setTopologyOrder_error [OF assms(2), of proj saveErr projectName st]
    obtain e where "setTopologyOrder trimSpace saveErr topologySet projectName proj st =
        (Some e, st)" by blast
    then show ?thesis by simp
  qed
  from ok err reordered_perm [OF assms(1)] reordered_shape [OF assms(1)]
  show ?thesis by blast
qed

lemma parse_dbFirst: "parseNames asciiTrimSpace dbFirst = [''db'', ''frontend'']"
  by (simp add: parseNames_def dbFirst_def asciiTrimSpace_def asciiSpace_def)

theorem C10_topology_order_witness:
  "distinct (map Name (Topology shopProject)) \<and>
   parseNames asciiTrimSpace dbFirst = [''db'', ''frontend''] \<and>
   fst (setTopologyOrder asciiTrimSpace None dbFirst ''shop'' shopProject
          (storeOf shopProject)) = None \<and>
   map Name (storedTopology
     (snd (setTopologyOrder asciiTrimSpace None dbFirst ''shop'' shopProject
             (storeOf shopProject))) ''shop'') = [''db'', ''frontend'', ''api''] \<and>
   parseNames asciiTrimSpace ''db->db'' = [''db'', ''db''] \<and>
   fst (setTopologyOrder asciiTrimSpace None ''db->db'' ''shop'' shopProject
          (storeOf shopProject)) \<noteq> None \<and>
   snd (setTopologyOrder asciiTrimSpace None ''db->db'' ''shop'' shopProject
          (storeOf shopProject)) = storeOf shopProject"
proof -
  have d: "distinct (map Name (Topology shopProject))"
    by (simp add: shopProject_def)
  have p2: "parseNames asciiTrimSpace ''db->db'' = [''db'', ''db'']"
    by (simp add: parseNames_def asciiTrimSpace_def asciiSpace_def)
  have r: "map Name (reordered (Topology shopProject) [''db'', ''frontend'']) =
      [''db'', ''frontend'', ''api'']"
    by (simp add: reordered_def shopProject_def lookupEntry_def)
  from C10_topology_order_permutation [OF d parse_dbFirst,
      where projectName = "''shop''" and st = "storeOf shopProject"]
    C10_topology_order_permutation [OF d p2,
      where saveErr = None and projectName = "''shop''" and st = "storeOf shopProject"]
    d parse_dbFirst p2 r
  show ?thesis by (simp add: shopProject_def)
qed

text \<open>
  The claim as stated fails in a project where two services share a name: the lookup
  table keeps the later one only, and the earlier one is lost.
\<close>

theorem C10_duplicate_names_counterexample:
  "parseNames asciiTrimSpace ''a'' = [''a''] \<and>
   set [''a''] \<subseteq> Name ` set (Topology dupProject) \<and>
   fst (setTopologyOrder asciiTrimSpace None ''a'' ''shop'' dupProject (storeOf dupProject)) =
     None \<and>
   storedTopology (storeOf dupProject) ''shop'' =
     [\<lparr>Name = ''a'', Platform = ''vercel'', ID = ''1''\<rparr>,
      \<lparr>Name = ''a'', Platform = ''supabase'', ID = ''2''\<rparr>] \<and>
   storedTopology
     (snd (setTopologyOrder asciiTrimSpace None ''a'' ''shop'' dupProject (storeOf dupProject)))
     ''shop'' = [\<lparr>Name = ''a'', Platform = ''supabase'', ID = ''2''\<rparr>]"
  by (simp add: parseNames_def asciiTrimSpace_def asciiSpace_def setTopologyOrder_def
      dupProject_def storeOf_def configOf_def storedTopology_def lookupEntry_def Save_def
      Let_def)

section \<open>Token encryption round trip\<close>

lemma of_char_lt: "(of_char c :: nat) < 256"
proof -
  have "(of_char c :: nat) mod 256 < 256" by simp
  then show ?thesis by (simp only: of_char_mod_256)
qed

lemma alphabet_table:
  "\<forall>n\<in>set [0..<64]. dec6 (enc6 n) = Some n \<and> enc6 n \<noteq> CHR ''='' \<and>
     enc6 n \<noteq> CHR 0x0D \<and> enc6 n \<noteq> CHR 0x0A"
  by code_simp

lemma alphabet:
  assumes "n < 64"
  shows "dec6 (enc6 n) = Some n" and "enc6 n \<noteq> CHR ''=''"
    and "enc6 n \<noteq> CHR 0x0D" and "enc6 n \<noteq> CHR 0x0A"
proof -
  from assms have "n \<in> set [0..<64]" by simp
  with alphabet_table show "dec6 (enc6 n) = Some n" and "enc6 n \<noteq> CHR ''=''"
    and "enc6 n \<noteq> CHR 0x0D" and "enc6 n \<noteq> CHR 0x0A"
    by blast+
qed

lemma sextets:
  fixes a b c :: nat
  assumes "a < 256" "b < 256" "c < 256"
  shows "a div 4 < 64" "a mod 4 * 16 < 64" "a mod 4 * 16 + b div 16 < 64"
    "b mod 16 * 4 < 64" "b mod 16 * 4 + c div 64 < 64" "c mod 64 < 64"
  using assms by (simp_all add: less_mult_imp_div_less)

lemma byte0:
  fixes a b :: nat
  assumes "b < 256"
  shows "a div 4 * 4 + (a mod 4 * 16 + b div 16) div 16 = a"
proof -
  have "b div 16 < 16" using assms by simp
  then have "(a mod 4 * 16 + b div 16) div 16 = a mod 4" by simp
  then show ?thesis by simp
qed

lemma byte0_padded: "(a::nat) div 4 * 4 + (a mod 4 * 16) div 16 = a"
  by simp

lemma byte1:
  fixes a b c :: nat
  assumes "b < 256" "c < 256"
  shows "(a mod 4 * 16 + b div 16) mod 16 * 16 + (b mod 16 * 4 + c div 64) div 4 = b"
proof -
  have "c div 64 < 4" using assms by simp
  then have 1: "(b mod 16 * 4 + c div 64) div 4 = b mod 16" by simp
  have "b div 16 < 16" using assms by simp
  then have 2: "(a mod 4 * 16 + b div 16) mod 16 = b div 16" by simp
  show ?thesis unfolding 1 2 by simp
qed

lemma byte1_padded:
  fixes a b :: nat
  assumes "b < 256"
  shows "(a mod 4 * 16 + b div 16) mod 16 * 16 + (b mod 16 * 4) div 4 = b"
proof -
  have "b div 16 < 16" using assms by simp
  then have 2: "(a mod 4 * 16 + b div 16) mod 16 = b div 16" by simp
  show ?thesis unfolding 2 by simp
qed

lemma byte2:
  fixes b c :: nat
  assumes "c < 256"
  shows "(b mod 16 * 4 + c div 64) mod 4 * 64 + c mod 64 = c"
proof -
  have "c div 64 < 4" using assms by simp
  then have 1: "(b mod 16 * 4 + c div 64) mod 4 = c div 64" by simp
  show ?thesis unfolding 1 by simp
qed

lemma decodeQuantum_full:
  "decodeQuantum final
     (enc6 (of_char a div 4)) (enc6 (of_char a mod 4 * 16 + of_char b div 16))
     (enc6 (of_char b mod 16 * 4 + of_char c div 64)) (enc6 (of_char c mod 64)) =
   Some [a, b, c]"
proof -
  note s = sextets [OF of_char_lt [of a] of_char_lt [of b] of_char_lt [of c]]
  have 0: "of_char a div 4 * 4 + (of_char a mod 4 * 16 + of_char b div 16) div 16 =
      (of_char a :: nat)"
    by (rule byte0 [OF of_char_lt])
  have 1: "(of_char a mod 4 * 16 + of_char b div 16) mod 16 * 16 +
      (of_char b mod 16 * 4 + of_char c div 64) div 4 = (of_char b :: nat)"
    by (rule byte1 [OF of_char_lt of_char_lt])
  have 2: "(of_char b mod 16 * 4 + of_char c div 64) mod 4 * 64 + of_char c mod 64 =
      (of_char c :: nat)"
    by (rule byte2 [OF of_char_lt])
  show ?thesis
    by (simp only: decodeQuantum_def alphabet [OF s(1)] alphabet [OF s(3)] alphabet [OF s(5)]
        alphabet [OF s(6)] 0 1 2 char_of_char option.case prod.case simp_thms if_False)
qed

lemma decodeQuantum_two:
  "decodeQuantum True
     (enc6 (of_char a div 4)) (enc6 (of_char a mod 4 * 16 + of_char b div 16))
     (enc6 (of_char b mod 16 * 4)) CHR ''='' = Some [a, b]"
proof -
  note s = sextets [OF of_char_lt [of a] of_char_lt [of b] of_char_lt [of b]]
  have 0: "of_char a div 4 * 4 + (of_char a mod 4 * 16 + of_char b div 16) div 16 =
      (of_char a :: nat)"
    by (rule byte0 [OF of_char_lt])
  have 1: "(of_char a mod 4 * 16 + of_char b div 16) mod 16 * 16 +
      (of_char b mod 16 * 4) div 4 = (of_char b :: nat)"
    by (rule byte1_padded [OF of_char_lt])
  show ?thesis
    by (simp only: decodeQuantum_def alphabet [OF s(1)] alphabet [OF s(3)] alphabet [OF s(4)]
        0 1 char_of_char option.case prod.case simp_thms if_False if_True)
qed

lemma decodeQuantum_one:
  "decodeQuantum True
     (enc6 (of_char a div 4)) (enc6 (of_char a mod 4 * 16)) CHR ''='' CHR ''='' = Some [a]"
proof -
  note s = sextets [OF of_char_lt [of a] of_char_lt [of a] of_char_lt [of a]]
  have 0: "of_char a div 4 * 4 + (of_char a mod 4 * 16) div 16 = (of_char a :: nat)"
    by (rule byte0_padded)
  show ?thesis
    by (simp only: decodeQuantum_def alphabet [OF s(1)] alphabet [OF s(2)]
        0 char_of_char option.case prod.case simp_thms if_False if_True)
qed

lemma decodeQuanta_EncodeToString: "decodeQuanta (EncodeToString bs) = Some bs"
proof (induction bs rule: EncodeToString.induct)
  case 1
  then show ?case by simp
next
  case (2 a)
  then show ?case by (simp add: decodeQuantum_one)
next
  case (3 a b)
  then show ?case by (simp add: decodeQuantum_two)
next
  case (4 a b c rest)
  then show ?case by (simp add: decodeQuantum_full)
qed

lemma EncodeToString_no_newline:
  "x \<in> set (EncodeToString bs) \<Longrightarrow> x \<noteq> CHR 0x0D \<and> x \<noteq> CHR 0x0A"
proof (induction bs arbitrary: x rule: EncodeToString.induct)
  case 1
  then show ?case by simp
next
  case (2 a)
  note s = sextets [OF of_char_lt [of a] of_char_lt [of a] of_char_lt [of a]]
  from 2 alphabet [OF s(1)] alphabet [OF s(2)] show ?case by auto
next
  case (3 a b)
  note s = sextets [OF of_char_lt [of a] of_char_lt [of b] of_char_lt [of b]]
  from 3 alphabet [OF s(1)] alphabet [OF s(3)] alphabet [OF s(4)] show ?case by auto
next
  case (4 a b c rest)
  note s = sextets [OF of_char_lt [of a] of_char_lt [of b] of_char_lt [of c]]
  from 4 alphabet [OF s(1)] alphabet [OF s(3)] alphabet [OF s(5)] alphabet [OF s(6)]
  show ?case by auto
qed

lemma DecodeString_EncodeToString: "DecodeString (EncodeToString bs) = Inr bs"
proof -
  have "filter (\<lambda>c. c \<noteq> CHR 0x0D \<and> c \<noteq> CHR 0x0A) (EncodeToString bs) = EncodeToString bs"
    using EncodeToString_no_newline by (simp add: filter_id_conv)
  then show ?thesis by (simp add: DecodeString_def decodeQuanta_EncodeToString)
qed

text \<open>
  Claim C9. Let the AES-GCM primitive of the Go library open what it sealed (under this
  key and nonce), the key have 32 bytes and the random source deliver the 12 bytes of the
  nonce. Then for every plaintext (any byte string, the empty one included)
  \<open>Encrypt\<close> succeeds, its output starts with "ENC:" (so \<open>IsEncrypted\<close> holds for
  it), and \<open>Decrypt\<close> with the same key returns the plaintext; and \<open>Decrypt\<close>
  returns an error for every input that lacks the prefix.
\<close>

theorem C9_encrypt_decrypt_roundtrip:
  assumes "\<forall>p. gcmOpen key nonce (gcmSeal key nonce p) = Inr p"
    and "length key = keySize"
    and "length nonce = gcmNonceSize"
  shows "Encrypt gcmSeal (Inr nonce) key plaintext =
           Inr (encPrefix @ EncodeToString (nonce @ gcmSeal key nonce plaintext)) \<and>
         HasPrefix (encPrefix @ EncodeToString (nonce @ gcmSeal key nonce plaintext)) ''ENC:'' \<and>
         IsEncrypted (encPrefix @ EncodeToString (nonce @ gcmSeal key nonce plaintext)) \<and>
         Decrypt gcmOpen key (encPrefix @ EncodeToString (nonce @ gcmSeal key nonce plaintext)) =
           Inr plaintext \<and>
         (\<not> HasPrefix s ''ENC:'' \<longrightarrow> (\<exists>e. Decrypt gcmOpen key s = Inl e))"
proof -
  let ?c = "encPrefix @ EncodeToString (nonce @ gcmSeal key nonce plaintext)"
  have k: "aes_NewCipher key = None"
    using assms(2) by (simp add: aes_NewCipher_def keySize_def)
  have e: "Encrypt gcmSeal (Inr nonce) key plaintext = Inr ?c"
    by (simp add: Encrypt_def k Let_def)
  have p: "HasPrefix ?c ''ENC:''"
    by (simp add: HasPrefix_def encPrefix_def)
  have t: "TrimPrefix ?c encPrefix = EncodeToString (nonce @ gcmSeal key nonce plaintext)"
    by (simp add: TrimPrefix_def HasPrefix_def)
  have p0: "HasPrefix ?c encPrefix"
    by (simp add: HasPrefix_def)
  have d: "Decrypt gcmOpen key ?c = Inr plaintext"
    using assms(1,3)
    by (simp add: Decrypt_def p0 t k DecodeString_EncodeToString Let_def)
  have n: "\<exists>e. Decrypt gcmOpen key s = Inl e" if "\<not> HasPrefix s ''ENC:''"
    using that by (simp add: Decrypt_def encPrefix_def)
  from e p d n show ?thesis by (simp add: IsEncrypted_def encPrefix_def)
qed

theorem C9_encrypt_decrypt_witness:
  "Decrypt (\<lambda>k n c. Inr c) (replicate 32 CHR ''k'')
     (encPrefix @ EncodeToString (replicate 12 CHR ''n'' @ ''token'')) = Inr ''token'' \<and>
   Encrypt (\<lambda>k n p. p) (Inr (replicate 12 CHR ''n'')) (replicate 32 CHR ''k'') '''' =
     Inr (encPrefix @ EncodeToString (replicate 12 CHR ''n'')) \<and>
   Decrypt (\<lambda>k n c. Inr c) (replicate 32 CHR ''k'')
     (encPrefix @ EncodeToString (replicate 12 CHR ''n'' @ '''')) = Inr '''' \<and>
   \<not> HasPrefix ''token'' ''ENC:'' \<and>
   Decrypt (\<lambda>k n c. Inr c) (replicate 32 CHR ''k'') ''token'' =
     Inl (Errorf (''invalid encrypted string: missing '' @ [CHR 0x22] @ ''ENC:'' @ [CHR 0x22] @
                  '' prefix''))"
proof -
  have a: "\<forall>p. (\<lambda>k n c. Inr c) (replicate 32 CHR ''k'') (replicate 12 CHR ''n'')
      ((\<lambda>k n p. p) (replicate 32 CHR ''k'') (replicate 12 CHR ''n'') p) =
      (Inr p :: error + string)" by simp
  have l: "length (replicate 32 CHR ''k'') = keySize" by (simp add: keySize_def)
  have m: "length (replicate 12 CHR ''n'') = gcmNonceSize" by (simp add: gcmNonceSize_def)
  have h: "\<not> HasPrefix ''token'' ''ENC:''" by (simp add: HasPrefix_def)
  have x: "Decrypt (\<lambda>k n c. Inr c) (replicate 32 CHR ''k'') ''token'' =
     Inl (Errorf (''invalid encrypted string: missing '' @ [CHR 0x22] @ ''ENC:'' @ [CHR 0x22] @
                  '' prefix''))"
    using h by (simp add: Decrypt_def encPrefix_def)
  from C9_encrypt_decrypt_roundtrip [OF a l m, of "''token''" "''token''"]
    C9_encrypt_decrypt_roundtrip [OF a l m, of "''''" "''token''"] h x
  show ?thesis by simp
qed

end
